theory Spec2Isabelle
  imports Main
begin

section \<open>Paths, exceptions and the collaborators of the distributor\<close>

text \<open>
  The yum distributor of \<^verbatim>\<open>distributor.py\<close> works on the file system through
  \<^verbatim>\<open>os\<close>, \<^verbatim>\<open>os.path\<close> and the helper module \<^verbatim>\<open>util\<close>. The helper module is not
  part of the sources at hand, so its functions are parameters of the model: a record of
  operations over an arbitrary world \<open>'w\<close> (the file system and everything else the
  collaborators touch). A call the source wraps in \<^verbatim>\<open>try\<close> may raise (its result is a
  sum); a call the source makes outside any \<^verbatim>\<open>try\<close> that can raise is modelled with
  the exception propagating; the plain \<^verbatim>\<open>os\<close> calls and
  \<^verbatim>\<open>remove_repo_publish_dir\<close> are taken to return.
\<close>

type_synonym path = string

datatype exn = KeyError | RuntimeError | AttributeError | TypeError | Raised string

type_synonym error_tuple = "path \<times> path \<times> string"

definition startswith_slash :: "string \<Rightarrow> bool" where
  "startswith_slash s = (case s of [] \<Rightarrow> False | c # _ \<Rightarrow> c = CHR ''/'')"

definition endswith_slash :: "string \<Rightarrow> bool" where
  "endswith_slash s = (case rev s of [] \<Rightarrow> False | c # _ \<Rightarrow> c = CHR ''/'')"

text \<open>\<^verbatim>\<open>posixpath.join\<close> for two components.\<close>

definition os_path_join :: "path \<Rightarrow> path \<Rightarrow> path" where
  "os_path_join a b =
     (if startswith_slash b then b
      else if a = [] \<or> endswith_slash a then a @ b
      else a @ ''/'' @ b)"

record associated_unit =
  unit_id :: string
  type_id :: string
  storage_path :: path
  packagedir :: "string option"
  files :: "string list option"

text \<open>
  A unit as the publisher reads it: \<open>packagedir\<close> is \<^verbatim>\<open>metadata[KEY_PACKAGEDIR]\<close> when
  that key is present and not \<^verbatim>\<open>None\<close>; \<open>files\<close> is \<^verbatim>\<open>metadata['files']\<close>, each
  descriptor given by its \<^verbatim>\<open>relativepath\<close>, and \<open>None\<close> when the metadata has no
  \<^verbatim>\<open>files\<close> key.
\<close>

record 'w world_ops =
  os_path_exists :: "path \<Rightarrow> 'w \<Rightarrow> bool"
  os_path_lexists :: "path \<Rightarrow> 'w \<Rightarrow> bool"
  os_path_islink :: "path \<Rightarrow> 'w \<Rightarrow> bool"
  os_unlink :: "path \<Rightarrow> 'w \<Rightarrow> 'w"
  os_makedirs :: "path \<Rightarrow> 'w \<Rightarrow> 'w"
  create_symlink :: "path \<Rightarrow> path \<Rightarrow> 'w \<Rightarrow> (string + bool) \<times> 'w"
  remove_repo_publish_dir :: "path \<Rightarrow> path \<Rightarrow> 'w \<Rightarrow> 'w"
  generate_listing_files :: "path \<Rightarrow> path \<Rightarrow> 'w \<Rightarrow> string option \<times> 'w"
  get_relpath_from_unit :: "associated_unit \<Rightarrow> path"
  os_path_isdir :: "path \<Rightarrow> 'w \<Rightarrow> bool"
  os_access_read :: "path \<Rightarrow> 'w \<Rightarrow> bool"
  os_access_write :: "path \<Rightarrow> 'w \<Rightarrow> bool"
  is_canceled :: "'w \<Rightarrow> bool"

text \<open>
  \<open>create_symlink src dst w\<close> is \<^verbatim>\<open>util.create_symlink(src, dst)\<close>: \<open>Inr b\<close> when it
  returns the boolean \<open>b\<close>, \<open>Inl m\<close> when it raises an exception \<open>e\<close> with
  \<^verbatim>\<open>str(e) = m\<close>. \<open>generate_listing_files\<close> returns \<open>Some m\<close> when it raises.
  \<open>os_access_read p\<close> is \<^verbatim>\<open>os.access(p, os.R_OK)\<close>, \<open>os_access_write p\<close> is
  \<^verbatim>\<open>os.access(p, os.W_OK)\<close>, and \<open>is_canceled\<close> reads the flag \<^verbatim>\<open>self.canceled\<close>,
  which \<^verbatim>\<open>cancel_publish_repo\<close> sets from outside the publish.
\<close>

section \<open>Progress status\<close>

datatype phase_state = NOT_STARTED | IN_PROGRESS | FINISHED | FAILED | SKIPPED

record progress =
  state :: phase_state
  num_success :: int
  num_error :: int
  items_left :: int
  items_total :: int
  error_details :: "error_tuple list"

definition init_progress :: progress where
  "init_progress = \<lparr>state = IN_PROGRESS, num_success = 0, num_error = 0,
     items_left = 0, items_total = 0, error_details = []\<rparr>"

section \<open>The manifest of published distribution files\<close>

text \<open>
  The distributor scratchpad is a dictionary; the only key this code reads or writes is
  \<^verbatim>\<open>constants.PUBLISHED_DISTRIBUTION_FILES_KEY\<close>, whose value is a dictionary from unit
  id to the list of published paths. A dictionary is an association list with distinct
  keys, in the order in which Python iterates over it.
\<close>

type_synonym manifest = "(string \<times> path list) list"

record scratchpad =
  published_distribution_files :: "manifest option"

definition dict_del :: "string \<Rightarrow> manifest \<Rightarrow> manifest" where
  "dict_del k m = filter (\<lambda>kv. fst kv \<noteq> k) m"

fun orphaned_paths_loop :: "'w world_ops \<Rightarrow> path \<Rightarrow> path list \<Rightarrow> 'w \<Rightarrow> 'w" where
  "orphaned_paths_loop ops wd [] w = w"
| "orphaned_paths_loop ops wd (p # ps) w =
     orphaned_paths_loop ops wd ps
       (if os_path_islink ops p w then remove_repo_publish_dir ops wd p w else w)"

text \<open>
  The loop \<^verbatim>\<open>for distroid in published_distro_units\<close> iterates over the very dictionary
  that its body deletes from (\<^verbatim>\<open>scratchpad[KEY]\<close> is the same object). A dictionary
  iterator compares the dictionary's size with the size at its creation each time the
  loop asks for the next key, also when no key is left, and raises \<^verbatim>\<open>RuntimeError\<close>
  (dictionary changed size during iteration) when they differ. \<open>n\<close> is the size at
  the start of the loop, \<open>ks\<close> the keys not yet visited.
\<close>

fun orphan_loop ::
  "'w world_ops \<Rightarrow> string list \<Rightarrow> path \<Rightarrow> nat \<Rightarrow> string list \<Rightarrow> manifest \<Rightarrow> 'w
     \<Rightarrow> exn + (manifest \<times> 'w)" where
  "orphan_loop ops ids wd n [] m w =
     (if length m \<noteq> n then Inl RuntimeError else Inr (m, w))"
| "orphan_loop ops ids wd n (distroid # ks) m w =
     (if length m \<noteq> n then Inl RuntimeError
      else if distroid \<notin> set ids then
        (case map_of m distroid of
           None \<Rightarrow> Inl KeyError
         | Some paths \<Rightarrow>
             orphan_loop ops ids wd n ks (dict_del distroid m)
               (orphaned_paths_loop ops wd paths w))
      else orphan_loop ops ids wd n ks m w)"

definition handle_orphaned_distributions ::
  "'w world_ops \<Rightarrow> associated_unit list \<Rightarrow> path \<Rightarrow> scratchpad \<Rightarrow> 'w \<Rightarrow> exn + (scratchpad \<times> 'w)" where
  "handle_orphaned_distributions ops units repo_working_dir sp w =
     (let distro_unit_ids = map unit_id units in
      case published_distribution_files sp of
        None \<Rightarrow> Inr (sp, w)
      | Some m \<Rightarrow>
          (case orphan_loop ops distro_unit_ids repo_working_dir (length m) (map fst m) m w of
             Inl e \<Rightarrow> Inl e
           | Inr (m', w') \<Rightarrow> Inr (sp\<lparr>published_distribution_files := Some m'\<rparr>, w')))"

section \<open>The distribution tree publisher\<close>

record 'w dstate =
  ds_world :: 'w
  ds_progress :: progress
  ds_errors :: "error_tuple list"
  ds_scratchpad :: scratchpad
  ds_package_dir :: "string option"

text \<open>
  The state the per-unit loop of \<^verbatim>\<open>symlink_distribution_unit_files\<close> threads:
  the world, \<^verbatim>\<open>distro_progress_status\<close>, \<^verbatim>\<open>errors\<close>, \<^verbatim>\<open>scratchpad\<close> and the
  instance attribute \<^verbatim>\<open>self.package_dir\<close>.
\<close>

text \<open>The body of \<^verbatim>\<open>for dfile in distro_files\<close>; \<open>pub\<close> is \<^verbatim>\<open>published_distro_files\<close>.\<close>

definition symlink_dfile ::
  "'w world_ops \<Rightarrow> path \<Rightarrow> path \<Rightarrow> string
     \<Rightarrow> 'w \<times> progress \<times> error_tuple list \<times> path list
     \<Rightarrow> 'w \<times> progress \<times> error_tuple list \<times> path list" where
  "symlink_dfile ops symlink_dir source_path_dir relativepath s =
     (case s of (w, ps, errors, pub) \<Rightarrow>
      let source_path = os_path_join source_path_dir relativepath;
          symlink_path = os_path_join symlink_dir relativepath in
      if os_path_exists ops symlink_path w then
        (w, ps\<lparr>items_left := items_left ps - 1\<rparr>, errors, pub @ [symlink_path])
      else if \<not> os_path_exists ops source_path w then
        (w, ps\<lparr>num_error := num_error ps + 1, items_left := items_left ps - 1\<rparr>,
         errors @ [(source_path, symlink_path, ''Source path: '' @ source_path @ '' is missing'')],
         pub)
      else
        (case create_symlink ops source_path symlink_path w of
           (Inr False, w') \<Rightarrow>
             (w', ps\<lparr>num_error := num_error ps + 1, items_left := items_left ps - 1\<rparr>,
              errors @ [(source_path, symlink_path,
                 ''Unable to create symlink for: '' @ symlink_path @ '' pointing to '' @ source_path)],
              pub)
         | (Inr True, w') \<Rightarrow>
             (w', ps\<lparr>num_success := num_success ps + 1, items_left := items_left ps - 1\<rparr>,
              errors, pub @ [symlink_path])
         | (Inl e, w') \<Rightarrow>
             (w', ps\<lparr>num_error := num_error ps + 1, items_left := items_left ps - 1\<rparr>,
              errors @ [(source_path, symlink_path, e)], pub)))"

fun symlink_dfiles ::
  "'w world_ops \<Rightarrow> path \<Rightarrow> path \<Rightarrow> string list
     \<Rightarrow> 'w \<times> progress \<times> error_tuple list \<times> path list
     \<Rightarrow> 'w \<times> progress \<times> error_tuple list \<times> path list" where
  "symlink_dfiles ops symlink_dir source_path_dir [] s = s"
| "symlink_dfiles ops symlink_dir source_path_dir (f # fs) s =
     symlink_dfiles ops symlink_dir source_path_dir fs
       (symlink_dfile ops symlink_dir source_path_dir f s)"

text \<open>
  The search for a tree-info file: the loop variables \<^verbatim>\<open>treeinfo\<close> and
  \<^verbatim>\<open>src_treeinfo_path\<close> after the loop. They keep the last candidate when no
  candidate exists, and \<^verbatim>\<open>src_treeinfo_path\<close> stays \<^verbatim>\<open>None\<close> only for an empty list.
\<close>

fun treeinfo_loop ::
  "'w world_ops \<Rightarrow> path \<Rightarrow> string list \<Rightarrow> 'w \<Rightarrow> (string \<times> path) option
     \<Rightarrow> (string \<times> path) option" where
  "treeinfo_loop ops source_path_dir [] w found = found"
| "treeinfo_loop ops source_path_dir (treeinfo # ts) w found =
     (let src_treeinfo_path = os_path_join source_path_dir treeinfo in
      if os_path_exists ops src_treeinfo_path w then Some (treeinfo, src_treeinfo_path)
      else treeinfo_loop ops source_path_dir ts w (Some (treeinfo, src_treeinfo_path)))"

text \<open>The directory of the package subdirectory, made a real directory.\<close>

definition prepare_package_dir :: "'w world_ops \<Rightarrow> path \<Rightarrow> string \<Rightarrow> 'w \<Rightarrow> 'w" where
  "prepare_package_dir ops symlink_dir pd w =
     (let package_path = os_path_join symlink_dir pd;
          w1 = (if os_path_islink ops package_path w then os_unlink ops package_path w else w)
      in if \<not> os_path_exists ops package_path w1 then os_makedirs ops package_path w1 else w1)"

text \<open>
  The body of \<^verbatim>\<open>for u in units\<close>. \<open>tree_info_list\<close> is \<^verbatim>\<open>constants.TREE_INFO_LIST\<close>.
  After the message about missing files the source reads \<^verbatim>\<open>u.metadata['files']\<close>
  all the same, which raises \<^verbatim>\<open>KeyError\<close>. The tree-info link is created outside any
  \<^verbatim>\<open>try\<close>, so an exception of \<^verbatim>\<open>create_symlink\<close> there propagates. The last
  statement replaces the whole value stored under the manifest key by a dictionary
  holding this unit alone. The result is the state after the unit together with the
  unit's \<^verbatim>\<open>published_distro_files\<close>.
\<close>

definition symlink_distribution_unit ::
  "'w world_ops \<Rightarrow> string list \<Rightarrow> path \<Rightarrow> associated_unit \<Rightarrow> 'w dstate
     \<Rightarrow> exn + ('w dstate \<times> path list)" where
  "symlink_distribution_unit ops tree_info_list symlink_dir u st =
     (let source_path_dir = storage_path u;
          st1 = (case packagedir u of
                   None \<Rightarrow> st
                 | Some pd \<Rightarrow> st\<lparr>ds_package_dir := Some pd,
                       ds_world := prepare_package_dir ops symlink_dir pd (ds_world st)\<rparr>)
      in case files u of
           None \<Rightarrow> Inl KeyError
         | Some distro_files \<Rightarrow>
             (let ps1 = (ds_progress st1)\<lparr>items_total := int (length distro_files),
                                         items_left := int (length distro_files)\<rparr>;
                  linked =
                    (case treeinfo_loop ops source_path_dir tree_info_list (ds_world st1) None of
                       None \<Rightarrow> Inr (ds_world st1)
                     | Some (treeinfo, src_treeinfo_path) \<Rightarrow>
                         (case create_symlink ops src_treeinfo_path
                                 (os_path_join symlink_dir treeinfo) (ds_world st1) of
                            (Inl e, w') \<Rightarrow> Inl (Raised e)
                          | (Inr b, w') \<Rightarrow> Inr w'))
              in case linked of
                   Inl e \<Rightarrow> Inl e
                 | Inr w2 \<Rightarrow>
                     (case symlink_dfiles ops symlink_dir source_path_dir distro_files
                             (w2, ps1, ds_errors st1, []) of
                        (w3, ps2, errors, published_distro_files) \<Rightarrow>
                          Inr (st1\<lparr>ds_world := w3, ds_progress := ps2, ds_errors := errors,
                                 ds_scratchpad := (ds_scratchpad st1)
                                   \<lparr>published_distribution_files :=
                                      Some [(unit_id u, published_distro_files)]\<rparr>\<rparr>,
                               published_distro_files))))"

fun symlink_distribution_units ::
  "'w world_ops \<Rightarrow> string list \<Rightarrow> path \<Rightarrow> associated_unit list \<Rightarrow> 'w dstate \<Rightarrow> exn + 'w dstate" where
  "symlink_distribution_units ops til symlink_dir [] st = Inr st"
| "symlink_distribution_units ops til symlink_dir (u # us) st =
     (case symlink_distribution_unit ops til symlink_dir u st of
        Inl e \<Rightarrow> Inl e
      | Inr (st', published_distro_files) \<Rightarrow>
          symlink_distribution_units ops til symlink_dir us st')"

record 'w distro_result =
  dr_status :: bool
  dr_errors :: "error_tuple list"
  dr_progress :: progress
  dr_set_scratchpad :: "scratchpad list"
  dr_package_dir :: "string option"
  dr_world :: 'w

text \<open>
  \<^verbatim>\<open>symlink_distribution_unit_files\<close>. \<open>existing\<close> is what
  \<^verbatim>\<open>publish_conduit.get_scratchpad()\<close> returns (\<open>None\<close> for \<^verbatim>\<open>None\<close>), \<open>pd\<close> the
  value of \<^verbatim>\<open>self.package_dir\<close> at the call. \<open>dr_set_scratchpad\<close> lists the
  arguments of the calls of \<^verbatim>\<open>publish_conduit.set_scratchpad\<close> in order; the source
  makes one such call, after the loop over the units and the \<^verbatim>\<open>Packages\<close> link.
\<close>

definition symlink_distribution_unit_files ::
  "'w world_ops \<Rightarrow> string list \<Rightarrow> associated_unit list \<Rightarrow> path \<Rightarrow> scratchpad option
     \<Rightarrow> string option \<Rightarrow> 'w \<Rightarrow> exn + 'w distro_result" where
  "symlink_distribution_unit_files ops tree_info_list units symlink_dir existing pd w =
     (let existing_scratchpad =
            (case existing of None \<Rightarrow> \<lparr>published_distribution_files = None\<rparr> | Some sp \<Rightarrow> sp)
      in case handle_orphaned_distributions ops units symlink_dir existing_scratchpad w of
           Inl e \<Rightarrow> Inl e
         | Inr (sp, w0) \<Rightarrow>
             (case symlink_distribution_units ops tree_info_list symlink_dir units
                     \<lparr>ds_world = w0, ds_progress = init_progress, ds_errors = [],
                      ds_scratchpad = sp, ds_package_dir = pd\<rparr> of
                Inl e \<Rightarrow> Inl e
              | Inr st \<Rightarrow>
                  (let packages_symlink_path = os_path_join symlink_dir ''Packages'';
                       aliased =
                         (if os_path_exists ops packages_symlink_path (ds_world st)
                          then Inr (ds_errors st, ds_world st)
                          else (case create_symlink ops symlink_dir packages_symlink_path
                                       (ds_world st) of
                                  (Inl e, w') \<Rightarrow> Inl (Raised e)
                                | (Inr True, w') \<Rightarrow> Inr (ds_errors st, w')
                                | (Inr False, w') \<Rightarrow>
                                    Inr (ds_errors st @ [(symlink_dir, packages_symlink_path,
                                      ''Unable to create Packages symlink required for RHEL 5 distributions'')],
                                         w')))
                   in case aliased of
                        Inl e \<Rightarrow> Inl e
                      | Inr (errors, w1) \<Rightarrow>
                          (if errors \<noteq> [] then
                             Inr \<lparr>dr_status = False, dr_errors = errors,
                                  dr_progress = (ds_progress st)\<lparr>error_details := errors,
                                                                 state := FAILED\<rparr>,
                                  dr_set_scratchpad = [ds_scratchpad st],
                                  dr_package_dir = ds_package_dir st, dr_world = w1\<rparr>
                           else
                             Inr \<lparr>dr_status = True, dr_errors = [],
                                  dr_progress = (ds_progress st)\<lparr>state := FINISHED\<rparr>,
                                  dr_set_scratchpad = [ds_scratchpad st],
                                  dr_package_dir = ds_package_dir st, dr_world = w1\<rparr>))))"

section \<open>The package symlink reconciler\<close>

text \<open>
  The body of \<^verbatim>\<open>for u in units\<close> in \<^verbatim>\<open>handle_symlinks\<close>; \<open>pd\<close> is
  \<^verbatim>\<open>self.package_dir\<close>. A first link that fails ends the unit (\<^verbatim>\<open>continue\<close>). A
  second link that returns \<^verbatim>\<open>False\<close> records the error and then falls through to
  the success count and to the decrement after the \<^verbatim>\<open>try\<close>.
\<close>

definition handle_symlink ::
  "'w world_ops \<Rightarrow> path \<Rightarrow> string option \<Rightarrow> associated_unit
     \<Rightarrow> 'w \<times> progress \<times> error_tuple list \<Rightarrow> 'w \<times> progress \<times> error_tuple list" where
  "handle_symlink ops symlink_dir pd u s =
     (case s of (w, ps, errors) \<Rightarrow>
      let relpath = get_relpath_from_unit ops u;
          source_path = storage_path u;
          symlink_path = os_path_join symlink_dir relpath in
      if \<not> os_path_exists ops source_path w then
        (w, ps\<lparr>num_error := num_error ps + 1, items_left := items_left ps - 1\<rparr>,
         errors @ [(source_path, symlink_path, ''Source path: '' @ source_path @ '' is missing'')])
      else
        (case create_symlink ops source_path symlink_path w of
           (Inl e, w') \<Rightarrow>
             (w', ps\<lparr>num_error := num_error ps + 1, items_left := items_left ps - 1\<rparr>,
              errors @ [(source_path, symlink_path, e)])
         | (Inr False, w') \<Rightarrow>
             (w', ps\<lparr>num_error := num_error ps + 1, items_left := items_left ps - 1\<rparr>,
              errors @ [(source_path, symlink_path,
                 ''Unable to create symlink for: '' @ symlink_path @ '' pointing to '' @ source_path)])
         | (Inr True, w') \<Rightarrow>
             (case pd of
                None \<Rightarrow>
                  (w', ps\<lparr>num_success := num_success ps + 1, items_left := items_left ps - 1\<rparr>,
                   errors)
              | Some package_dir \<Rightarrow>
                  (let symlink_path2 =
                         os_path_join (os_path_join symlink_dir package_dir) relpath in
                   case create_symlink ops source_path symlink_path2 w' of
                     (Inl e, w'') \<Rightarrow>
                       (w'', ps\<lparr>num_error := num_error ps + 1, items_left := items_left ps - 1\<rparr>,
                        errors @ [(source_path, symlink_path2, e)])
                   | (Inr False, w'') \<Rightarrow>
                       (w'', ps\<lparr>num_error := num_error ps + 1,
                                 num_success := num_success ps + 1,
                                 items_left := items_left ps - 1 - 1\<rparr>,
                        errors @ [(source_path, symlink_path2,
                           ''Unable to create symlink for: '' @ symlink_path2 @
                           '' pointing to '' @ source_path)])
                   | (Inr True, w'') \<Rightarrow>
                       (w'', ps\<lparr>num_success := num_success ps + 1,
                                 items_left := items_left ps - 1\<rparr>,
                        errors)))))"

fun handle_symlinks_loop ::
  "'w world_ops \<Rightarrow> path \<Rightarrow> string option \<Rightarrow> associated_unit list
     \<Rightarrow> 'w \<times> progress \<times> error_tuple list \<Rightarrow> 'w \<times> progress \<times> error_tuple list" where
  "handle_symlinks_loop ops symlink_dir pd [] s = s"
| "handle_symlinks_loop ops symlink_dir pd (u # us) s =
     handle_symlinks_loop ops symlink_dir pd us (handle_symlink ops symlink_dir pd u s)"

text \<open>
  \<^verbatim>\<open>handle_symlinks\<close>: the status, the errors, the final
  \<^verbatim>\<open>packages_progress_status\<close> and the world. With errors the state of the tracker
  stays \<^verbatim>\<open>IN_PROGRESS\<close>.
\<close>

definition handle_symlinks ::
  "'w world_ops \<Rightarrow> associated_unit list \<Rightarrow> path \<Rightarrow> string option \<Rightarrow> 'w
     \<Rightarrow> bool \<times> error_tuple list \<times> progress \<times> 'w" where
  "handle_symlinks ops units symlink_dir pd w =
     (case handle_symlinks_loop ops symlink_dir pd units
             (w, init_progress\<lparr>items_total := int (length units),
                                items_left := int (length units)\<rparr>, []) of
        (w', ps, errors) \<Rightarrow>
          (if errors \<noteq> [] then (False, errors, ps\<lparr>error_details := errors\<rparr>, w')
           else (True, [], ps\<lparr>state := FINISHED\<rparr>, w')))"

text \<open>
  The one branch of the loop body in which the unit is counted twice: the source
  exists, the first link is created, a package subdirectory is set and the call of
  \<^verbatim>\<open>create_symlink\<close> for the second link (line 530) returns \<^verbatim>\<open>False\<close>.
  \<open>second_link_refused\<close> says that a unit takes this branch in a world,
  \<open>second_link_refused_in_run\<close> that some unit of the loop takes it, each unit in
  the state the units before it left.
\<close>

definition second_link_refused ::
  "'w world_ops \<Rightarrow> path \<Rightarrow> string option \<Rightarrow> associated_unit \<Rightarrow> 'w \<Rightarrow> bool" where
  "second_link_refused ops symlink_dir pd u w =
     (let relpath = get_relpath_from_unit ops u;
          source_path = storage_path u
      in os_path_exists ops source_path w \<and>
         (case create_symlink ops source_path (os_path_join symlink_dir relpath) w of
            (Inr True, w') \<Rightarrow>
              (case pd of
                 None \<Rightarrow> False
               | Some package_dir \<Rightarrow>
                   fst (create_symlink ops source_path
                          (os_path_join (os_path_join symlink_dir package_dir) relpath) w')
                   = Inr False)
          | _ \<Rightarrow> False))"

fun second_link_refused_in_run ::
  "'w world_ops \<Rightarrow> path \<Rightarrow> string option \<Rightarrow> associated_unit list
     \<Rightarrow> 'w \<times> progress \<times> error_tuple list \<Rightarrow> bool" where
  "second_link_refused_in_run ops symlink_dir pd [] s = False"
| "second_link_refused_in_run ops symlink_dir pd (u # us) s =
     (second_link_refused ops symlink_dir pd u (fst s)
      \<or> second_link_refused_in_run ops symlink_dir pd us (handle_symlink ops symlink_dir pd u s))"

section \<open>Configuration\<close>

text \<open>
  Configuration values are Python objects. \<open>config_get\<close> is \<^verbatim>\<open>config.get(key)\<close>,
  \<^verbatim>\<open>None\<close> for a key that is not set; \<open>config_keys\<close> is \<^verbatim>\<open>config.keys()\<close>. A message
  built with \<^verbatim>\<open>fmt % args\<close> is kept as the format string and its arguments.
\<close>

datatype pyval = PNone | PBool bool | PStr string | PInt int | PList "pyval list"

datatype message = Msg string "pyval list"

type_synonym config = "(string \<times> pyval) list"

definition config_get :: "config \<Rightarrow> string \<Rightarrow> pyval" where
  "config_get config key = (case map_of config key of None \<Rightarrow> PNone | Some v \<Rightarrow> v)"

definition config_keys :: "config \<Rightarrow> string list" where
  "config_keys config = map fst config"

fun truthy :: "pyval \<Rightarrow> bool" where
  "truthy PNone = False"
| "truthy (PBool b) = b"
| "truthy (PStr s) = (s \<noteq> [])"
| "truthy (PInt i) = (i \<noteq> 0)"
| "truthy (PList xs) = (xs \<noteq> [])"

fun is_basestring :: "pyval \<Rightarrow> bool" where
  "is_basestring (PStr s) = True"
| "is_basestring v = False"

fun is_bool :: "pyval \<Rightarrow> bool" where
  "is_bool (PBool b) = True"
| "is_bool v = False"

fun is_list :: "pyval \<Rightarrow> bool" where
  "is_list (PList xs) = True"
| "is_list v = False"

definition REQUIRED_CONFIG_KEYS :: "string list" where
  "REQUIRED_CONFIG_KEYS = [''relative_url'', ''http'', ''https'']"

definition OPTIONAL_CONFIG_KEYS :: "string list" where
  "OPTIONAL_CONFIG_KEYS = [''protected'', ''auth_cert'', ''auth_ca'', ''https_ca'', ''gpgkey'',
     ''checksum_type'', ''skip'', ''https_publish_dir'', ''http_publish_dir'', ''use_createrepo'',
     ''skip_pkg_tags'']"

definition HTTP_PUBLISH_DIR :: path where
  "HTTP_PUBLISH_DIR = ''/var/lib/pulp/published/http/repos''"

definition HTTPS_PUBLISH_DIR :: path where
  "HTTPS_PUBLISH_DIR = ''/var/lib/pulp/published/https/repos''"

record repo =
  repo_id :: string
  working_dir :: path

text \<open>The characters of the class \<^verbatim>\<open>[a-zA-Z0-9/_-]\<close>.\<close>

definition allowed_char :: "char \<Rightarrow> bool" where
  "allowed_char c = (c \<in> set (''abcdefghijklmnopqrstuvwxyz'' @ ''ABCDEFGHIJKLMNOPQRSTUVWXYZ'' @
                               ''0123456789'' @ ''/_-''))"

text \<open>
  \<^verbatim>\<open>re.match('[^a-zA-Z0-9/_-]+', s)\<close> as a truth value: \<^verbatim>\<open>re.match\<close> matches at the
  start of the string only, so there is a match exactly when the longest prefix of
  characters outside the class is not empty.
\<close>

definition re_match_disallowed :: "string \<Rightarrow> bool" where
  "re_match_disallowed s = (takeWhile (\<lambda>c. \<not> allowed_char c) s \<noteq> [])"

definition get_repo_relative_path :: "repo \<Rightarrow> config \<Rightarrow> pyval" where
  "get_repo_relative_path r config =
     (let relative_url = config_get config ''relative_url'' in
      if truthy relative_url then relative_url else PStr (repo_id r))"

text \<open>
  The callers strip one leading slash:
  \<^verbatim>\<open>if p.startswith("/"): p = p[1:]\<close>; a value that is not a string has no
  \<^verbatim>\<open>startswith\<close>.
\<close>

definition stripped_relative_path :: "repo \<Rightarrow> config \<Rightarrow> exn + string" where
  "stripped_relative_path r config =
     (case get_repo_relative_path r config of
        PStr p \<Rightarrow> Inr (if startswith_slash p then tl p else p)
      | _ \<Rightarrow> Inl AttributeError)"

section \<open>Validation of a configuration\<close>

record cert_bundle =
  cert :: "string option"
  ca :: "string option"

datatype auth_call =
    Write_consumer_cert_bundle string cert_bundle
  | Add_protected_repo path string
  | Delete_protected_repo path
  | Delete_for_repo string

text \<open>
  \<^verbatim>\<open>process_repo_auth_certificate_bundle\<close>, as the list of the calls it makes on the
  certificate store and on the listing of protected repositories. A bundle is empty (a
  false value) when neither entry was set.
\<close>

definition process_repo_auth_certificate_bundle ::
  "string \<Rightarrow> path \<Rightarrow> cert_bundle \<Rightarrow> auth_call list" where
  "process_repo_auth_certificate_bundle rid repo_relative_path bundle =
     (if cert bundle \<noteq> None \<or> ca bundle \<noteq> None
      then [Write_consumer_cert_bundle rid bundle, Add_protected_repo repo_relative_path rid]
      else [Delete_protected_repo repo_relative_path])"

record validators =
  is_valid_checksum_type :: "pyval \<Rightarrow> bool"
  validate_cert :: "string \<Rightarrow> bool"

record conflict_item =
  ci_repo_id :: string
  ci_relative_url :: "pyval option"

text \<open>
  \<open>validators\<close> holds the two checks of \<^verbatim>\<open>util\<close> that validation calls. A
  \<open>conflict_item\<close> is an item of the cursor that
  \<^verbatim>\<open>config_conduit.get_repo_distributors_by_relative_url\<close> returns: its
  \<^verbatim>\<open>repo_id\<close> and its \<^verbatim>\<open>config["relative_url"]\<close> (\<open>None\<close> when the item's
  configuration has no such key).
\<close>

definition quoted :: "string \<Rightarrow> string" where
  "quoted s = [CHR 0x27] @ s @ [CHR 0x27]"

definition check_relative_url :: "config \<Rightarrow> message option" where
  "check_relative_url config =
     (let relative_path = config_get config ''relative_url'' in
      case relative_path of
        PNone \<Rightarrow> None
      | PStr s \<Rightarrow>
          (if re_match_disallowed s
           then Some (Msg ''relative_url must contain only alphanumerics, underscores, and dashes.'' [])
           else None)
      | _ \<Rightarrow> Some (Msg ''relative_url should be a basestring; got %s instead'' [relative_path]))"

definition check_boolean :: "config \<Rightarrow> string \<Rightarrow> message option" where
  "check_boolean config key =
     (let v = config_get config key in
      if v \<noteq> PNone \<and> \<not> is_bool v
      then Some (Msg (key @ '' should be a boolean; got %s instead'') [v])
      else None)"

text \<open>The body of \<^verbatim>\<open>for key in REQUIRED_CONFIG_KEYS\<close>: \<open>Some msg\<close> is \<^verbatim>\<open>return False, msg\<close>.\<close>

definition check_required_key :: "config \<Rightarrow> string \<Rightarrow> message option" where
  "check_required_key config key =
     (if config_get config key = PNone
      then Some (Msg ''Missing required configuration key: %(key)s'' [PStr key])
      else if key = ''relative_url'' then check_relative_url config
      else if key = ''http'' then check_boolean config ''http''
      else if key = ''https'' then check_boolean config ''https''
      else None)"

fun check_required_keys :: "config \<Rightarrow> string list \<Rightarrow> message option" where
  "check_required_keys config [] = None"
| "check_required_keys config (key # keys) =
     (case check_required_key config key of
        Some msg \<Rightarrow> Some msg
      | None \<Rightarrow> check_required_keys config keys)"

text \<open>
  The body of \<^verbatim>\<open>for key in config.keys()\<close>: \<open>Inl e\<close> raises, \<open>Inr (Inl msg)\<close> is
  \<^verbatim>\<open>return False, msg\<close>, \<open>Inr (Inr b)\<close> goes on with the bundle \<open>b\<close>.
  \<^verbatim>\<open>config.get('auth_cert').encode('utf-8')\<close> raises \<^verbatim>\<open>AttributeError\<close> on a value
  that is not a string; on a string it is taken to return the string.
\<close>

definition check_config_key ::
  "validators \<Rightarrow> config \<Rightarrow> string \<Rightarrow> cert_bundle \<Rightarrow> exn + (message + cert_bundle)" where
  "check_config_key vs config key bundle =
     (if key \<notin> set REQUIRED_CONFIG_KEYS \<and> key \<notin> set OPTIONAL_CONFIG_KEYS then
        Inr (Inl (Msg (''Configuration key '' @ quoted ''%(key)s'' @ '' is not supported'')
                    [PStr key]))
      else if key = ''protected'' then
        (if \<not> is_bool (config_get config ''protected'')
         then Inr (Inl (Msg ''protected should be a boolean; got %s instead''
                          [config_get config ''protected'']))
         else Inr (Inr bundle))
      else if key = ''use_createrepo'' then
        (if \<not> is_bool (config_get config ''use_createrepo'')
         then Inr (Inl (Msg ''use_createrepo should be a boolean; got %s instead''
                          [config_get config ''use_createrepo'']))
         else Inr (Inr bundle))
      else if key = ''checksum_type'' then
        (let checksum_type = config_get config ''checksum_type'' in
         if checksum_type \<noteq> PNone \<and> \<not> is_valid_checksum_type vs checksum_type
         then Inr (Inl (Msg ''%s is not a valid checksum type'' [checksum_type]))
         else Inr (Inr bundle))
      else if key = ''skip'' then
        (if \<not> is_list (config_get config ''skip'')
         then Inr (Inl (Msg ''skip should be a dictionary; got %s instead''
                          [config_get config ''skip'']))
         else Inr (Inr bundle))
      else if key = ''auth_cert'' then
        (case config_get config ''auth_cert'' of
           PStr auth_pem \<Rightarrow>
             (if \<not> validate_cert vs auth_pem
              then Inr (Inl (Msg ''auth_cert is not a valid certificate'' []))
              else Inr (Inr (bundle\<lparr>cert := Some auth_pem\<rparr>)))
         | _ \<Rightarrow> Inl AttributeError)
      else if key = ''auth_ca'' then
        (case config_get config ''auth_ca'' of
           PStr auth_ca \<Rightarrow>
             (if \<not> validate_cert vs auth_ca
              then Inr (Inl (Msg ''auth_ca is not a valid certificate'' []))
              else Inr (Inr (bundle\<lparr>ca := Some auth_ca\<rparr>)))
         | _ \<Rightarrow> Inl AttributeError)
      else Inr (Inr bundle))"

fun check_config_keys ::
  "validators \<Rightarrow> config \<Rightarrow> string list \<Rightarrow> cert_bundle \<Rightarrow> exn + (message + cert_bundle)" where
  "check_config_keys vs config [] bundle = Inr (Inr bundle)"
| "check_config_keys vs config (key # keys) bundle =
     (case check_config_key vs config key bundle of
        Inl e \<Rightarrow> Inl e
      | Inr (Inl msg) \<Rightarrow> Inr (Inl msg)
      | Inr (Inr bundle') \<Rightarrow> check_config_keys vs config keys bundle')"

text \<open>
  The check of an overriding publish directory; \<open>name\<close> is \<^verbatim>\<open>https_publish_dir\<close> or
  \<^verbatim>\<open>http_publish_dir\<close>. \<^verbatim>\<open>os.path.exists\<close> raises \<^verbatim>\<open>TypeError\<close> on a true value that
  is not a string.
\<close>

definition check_publish_dir ::
  "'w world_ops \<Rightarrow> config \<Rightarrow> string \<Rightarrow> 'w \<Rightarrow> exn + message option" where
  "check_publish_dir ops config name w =
     (let publish_dir = config_get config name in
      if truthy publish_dir then
        (case publish_dir of
           PStr d \<Rightarrow>
             (if \<not> os_path_exists ops d w \<or> \<not> os_path_isdir ops d w then
                Inr (Some (Msg (''Value for '' @ quoted name @
                  '' is not an existing directory: %(publish_dir)s'') [publish_dir]))
              else if \<not> os_access_read ops d w \<or> \<not> os_access_write ops d w then
                Inr (Some (Msg (''Unable to read & write to specified '' @ quoted name @
                  '': %(publish_dir)s'') [publish_dir]))
              else Inr None)
         | _ \<Rightarrow> Inl TypeError)
      else Inr None)"

definition check_conflicts ::
  "path \<Rightarrow> conflict_item list \<Rightarrow> exn + message option" where
  "check_conflicts repo_relative_path conflict_items =
     (case conflict_items of
        [] \<Rightarrow> Inr None
      | item # _ \<Rightarrow>
          (case ci_relative_url item of
             None \<Rightarrow> Inl KeyError
           | Some rel \<Rightarrow>
               (let conflicting_url = (if rel \<noteq> PNone then rel else PStr (ci_repo_id item)) in
                Inr (Some (Msg (''Relative url '' @ quoted ''%(rel_url)s'' @
                   '' conflicts with existing relative_url of '' @ quoted ''%(conflict_rel_url)s'' @
                   '' from repo '' @ quoted ''%(conflict_repo_id)s'')
                   [PStr repo_relative_path, conflicting_url, PStr (ci_repo_id item)])))))"

text \<open>
  \<^verbatim>\<open>validate_config\<close>: what it returns or raises, and the calls it has made on the
  certificate store and the listing of protected repositories by then.
  \<open>conflicts p i\<close> is what
  \<^verbatim>\<open>config_conduit.get_repo_distributors_by_relative_url(p, i)\<close> returns.
\<close>

definition validate_config ::
  "'w world_ops \<Rightarrow> validators \<Rightarrow> (path \<Rightarrow> string \<Rightarrow> conflict_item list)
     \<Rightarrow> repo \<Rightarrow> config \<Rightarrow> 'w \<Rightarrow> (exn + bool \<times> message option) \<times> auth_call list" where
  "validate_config ops vs conflicts r config w =
     (case check_required_keys config REQUIRED_CONFIG_KEYS of
        Some msg \<Rightarrow> (Inr (False, Some msg), [])
      | None \<Rightarrow>
     (case check_config_keys vs config (config_keys config) \<lparr>cert = None, ca = None\<rparr> of
        Inl e \<Rightarrow> (Inl e, [])
      | Inr (Inl msg) \<Rightarrow> (Inr (False, Some msg), [])
      | Inr (Inr auth_cert_bundle) \<Rightarrow>
     (case stripped_relative_path r config of
        Inl e \<Rightarrow> (Inl e, [])
      | Inr repo_relative_path \<Rightarrow>
     (let calls = process_repo_auth_certificate_bundle (repo_id r) repo_relative_path
                    auth_cert_bundle in
      case check_publish_dir ops config ''https_publish_dir'' w of
        Inl e \<Rightarrow> (Inl e, calls)
      | Inr (Some msg) \<Rightarrow> (Inr (False, Some msg), calls)
      | Inr None \<Rightarrow>
     (case check_publish_dir ops config ''http_publish_dir'' w of
        Inl e \<Rightarrow> (Inl e, calls)
      | Inr (Some msg) \<Rightarrow> (Inr (False, Some msg), calls)
      | Inr None \<Rightarrow>
     (case check_conflicts repo_relative_path (conflicts repo_relative_path (repo_id r)) of
        Inl e \<Rightarrow> (Inl e, calls)
      | Inr (Some msg) \<Rightarrow> (Inr (False, Some msg), calls)
      | Inr None \<Rightarrow> (Inr (True, None), calls)))))))"

section \<open>The publish orchestrator\<close>

text \<open>
  An entry of the dictionary \<^verbatim>\<open>progress_status\<close> of \<^verbatim>\<open>publish_repo\<close> is either a
  dictionary holding a state alone or the tracker of a phase. Reports that the
  collaborators make through the callback are theirs and are not part of the model.
\<close>

datatype status = State_only phase_state | Tracker progress

record progress_status =
  ps_packages :: status
  ps_distribution :: status
  ps_metadata :: status
  ps_packagegroups :: status
  ps_publish_http :: status
  ps_publish_https :: status

text \<open>
  The publish conduit: the units that \<^verbatim>\<open>get_units\<close> returns for each criteria the
  publish uses, the distributor scratchpad (\<open>None\<close> when \<^verbatim>\<open>get_scratchpad()\<close>
  returns \<^verbatim>\<open>None\<close>) and the value the repository scratchpad holds under
  \<^verbatim>\<open>old_relative_path\<close> (\<open>None\<close> when the key is not there).
\<close>

record publish_conduit =
  pc_distro_units :: "associated_unit list"
  pc_rpm_units :: "associated_unit list"
  pc_srpm_units :: "associated_unit list"
  pc_drpm_units :: "associated_unit list"
  pc_errata_units :: "associated_unit list"
  pc_group_category_units :: "associated_unit list"
  pc_scratchpad :: "scratchpad option"
  pc_old_relative_path :: "string option"

text \<open>
  The writers of metadata, which are not among the sources: \<^verbatim>\<open>updateinfo.updateinfo\<close>,
  \<^verbatim>\<open>comps_util.write_comps_xml\<close>, \<^verbatim>\<open>metadata.generate_metadata\<close> and
  \<^verbatim>\<open>metadata.generate_yum_metadata\<close>. The generators return the status and the list
  of their errors. The calls are made outside any \<^verbatim>\<open>try\<close> and are taken to return.
\<close>

record 'w metadata_ops =
  updateinfo :: "associated_unit list \<Rightarrow> path \<Rightarrow> 'w \<Rightarrow> path option \<times> 'w"
  write_comps_xml ::
    "path \<Rightarrow> associated_unit list \<Rightarrow> associated_unit list \<Rightarrow> 'w \<Rightarrow> path option \<times> 'w"
  generate_metadata :: "path \<Rightarrow> config \<Rightarrow> path option \<Rightarrow> 'w \<Rightarrow> (bool \<times> string list) \<times> 'w"
  generate_yum_metadata ::
    "string \<Rightarrow> path \<Rightarrow> config \<Rightarrow> bool \<Rightarrow> path option \<Rightarrow> path option \<Rightarrow> 'w
       \<Rightarrow> (bool \<times> string list) \<times> 'w"

definition TYPE_ID_PKG_GROUP :: string where
  \<comment> \<open>Modelled from the spec: the type tag of package groups; \<^verbatim>\<open>pulp_rpm.common.ids\<close> is not among the sources.\<close>
  "TYPE_ID_PKG_GROUP = ''package_group''"

definition TYPE_ID_PKG_CATEGORY :: string where
  \<comment> \<open>Modelled from the spec: the type tag of package categories; \<^verbatim>\<open>pulp_rpm.common.ids\<close> is not among the sources.\<close>
  "TYPE_ID_PKG_CATEGORY = ''package_category''"

record summary =
  https_publish_dir :: "path option"
  http_publish_dir :: "path option"
  num_package_units_attempted :: int
  num_package_units_published :: int
  num_package_units_errors :: int
  num_distribution_units_attempted :: int
  num_distribution_units_published :: int
  num_distribution_units_errors :: int
  num_package_groups_published :: int
  num_package_categories_published :: int
  relative_path :: string
  skip_metadata_update :: bool

text \<open>
  The summary of a report; the two publish directories are keys that are only set when
  the protocol was published. Of the details only \<^verbatim>\<open>errors\<close> is kept: the elapsed
  time of the metadata generation is a difference of wall-clock readings.
\<close>

record details =
  errors :: "error_tuple list"

text \<open>A cancel report is built from the summary and details still empty.\<close>

datatype report =
    is_cancel: Cancel_report
  | is_failure: Failure_report summary details
  | is_success: Success_report summary details

fun report_errors :: "report \<Rightarrow> error_tuple list" where
  "report_errors Cancel_report = []"
| "report_errors (Failure_report s d) = errors d"
| "report_errors (Success_report s d) = errors d"

fun report_summary :: "report \<Rightarrow> summary option" where
  "report_summary Cancel_report = None"
| "report_summary (Failure_report s d) = Some s"
| "report_summary (Success_report s d) = Some s"

record 'w publish_result =
  pr_report :: report
  pr_progress :: progress_status
  pr_set_scratchpad :: "scratchpad list"
  pr_old_relative_path :: "string option"
  pr_package_dir :: "string option"
  pr_world :: 'w

text \<open>\<^verbatim>\<open>sub in s\<close> for two strings.\<close>

fun contains_sub :: "string \<Rightarrow> string \<Rightarrow> bool" where
  "contains_sub sub [] = (sub = [])"
| "contains_sub sub (c # cs) = (take (length sub) (c # cs) = sub \<or> contains_sub sub cs)"

text \<open>
  \<^verbatim>\<open>skip_list = config.get('skip') or []\<close> and the tests \<^verbatim>\<open>'...' not in skip_list\<close>;
  \<open>None\<close> when the value is true and not a container, where the first test raises
  \<^verbatim>\<open>TypeError\<close>.
\<close>

definition skip_test :: "pyval \<Rightarrow> (string \<Rightarrow> bool) option" where
  "skip_test v =
     (if \<not> truthy v then Some (\<lambda>k. False)
      else case v of
             PList xs \<Rightarrow> Some (\<lambda>k. PStr k \<in> set xs)
           | PStr s \<Rightarrow> Some (\<lambda>k. contains_sub k s)
           | _ \<Rightarrow> None)"

definition get_https_publish_dir :: "config \<Rightarrow> pyval" where
  "get_https_publish_dir config =
     (let publish_dir = config_get config ''https_publish_dir'' in
      if truthy publish_dir then publish_dir else PStr HTTPS_PUBLISH_DIR)"

definition get_http_publish_dir :: "config \<Rightarrow> pyval" where
  "get_http_publish_dir config =
     (let publish_dir = config_get config ''http_publish_dir'' in
      if truthy publish_dir then publish_dir else PStr HTTP_PUBLISH_DIR)"

definition rstrip_slash :: "string \<Rightarrow> string" where
  "rstrip_slash s = rev (dropWhile (\<lambda>c. c = CHR ''/'') (rev s))"

text \<open>
  The removal of the tree published under the previous relative path, under each root.
\<close>

definition remove_old_publish_dirs ::
  "'w world_ops \<Rightarrow> path \<Rightarrow> path \<Rightarrow> string option \<Rightarrow> 'w \<Rightarrow> 'w" where
  "remove_old_publish_dirs ops https_dir http_dir old w =
     (case old of
        None \<Rightarrow> w
      | Some old_relative_path \<Rightarrow>
          (let old_https_repo_publish_dir = os_path_join https_dir old_relative_path;
               w1 = (if os_path_exists ops old_https_repo_publish_dir w
                     then remove_repo_publish_dir ops https_dir old_https_repo_publish_dir w
                     else w);
               old_http_repo_publish_dir = os_path_join http_dir old_relative_path
           in if os_path_exists ops old_http_repo_publish_dir w1
              then remove_repo_publish_dir ops http_dir old_http_repo_publish_dir w1
              else w1))"

text \<open>
  The step for one protocol (\<^verbatim>\<open># Handle publish link for HTTPS\<close>, then the same for
  HTTP): the final state of the phase, the directory entered in the summary, and the
  world. The bare \<^verbatim>\<open>except\<close> catches whatever the two calls raise.
\<close>

definition publish_link ::
  "'w world_ops \<Rightarrow> bool \<Rightarrow> path \<Rightarrow> path \<Rightarrow> path \<Rightarrow> 'w \<Rightarrow> phase_state \<times> path option \<times> 'w" where
  "publish_link ops enabled wdir publish_dir repo_publish_dir w =
     (if enabled then
        (case create_symlink ops wdir repo_publish_dir w of
           (Inl e, w') \<Rightarrow> (FAILED, None, w')
         | (Inr b, w') \<Rightarrow>
             (case generate_listing_files ops publish_dir repo_publish_dir w' of
                (Some e, w'') \<Rightarrow> (FAILED, None, w'')
              | (None, w'') \<Rightarrow> (FINISHED, Some repo_publish_dir, w'')))
      else
        (SKIPPED, None,
         if os_path_lexists ops repo_publish_dir w
         then remove_repo_publish_dir ops publish_dir repo_publish_dir w
         else w))"

text \<open>The distribution phase of \<^verbatim>\<open>publish_repo\<close>.\<close>

definition publish_distribution ::
  "'w world_ops \<Rightarrow> string list \<Rightarrow> (string \<Rightarrow> bool) \<Rightarrow> publish_conduit \<Rightarrow> repo \<Rightarrow> string option
     \<Rightarrow> 'w \<Rightarrow> exn + (associated_unit list \<times> error_tuple list \<times> status \<times> scratchpad list
                  \<times> string option \<times> 'w)" where
  "publish_distribution ops til skip conduit r pd w =
     (if skip ''distribution'' then Inr ([], [], State_only NOT_STARTED, [], pd, w)
      else
        (case symlink_distribution_unit_files ops til (pc_distro_units conduit) (working_dir r)
                (pc_scratchpad conduit) pd w of
           Inl e \<Rightarrow> Inl e
         | Inr dr \<Rightarrow>
             Inr (pc_distro_units conduit, dr_errors dr, Tracker (dr_progress dr),
                  dr_set_scratchpad dr, dr_package_dir dr, dr_world dr)))"

text \<open>The package phase of \<^verbatim>\<open>publish_repo\<close>.\<close>

definition publish_packages ::
  "'w world_ops \<Rightarrow> (string \<Rightarrow> bool) \<Rightarrow> publish_conduit \<Rightarrow> repo \<Rightarrow> string option \<Rightarrow> 'w
     \<Rightarrow> associated_unit list \<times> error_tuple list \<times> status \<times> 'w" where
  "publish_packages ops skip conduit r pd w =
     (if skip ''rpm'' then ([], [], State_only NOT_STARTED, w)
      else
        (let pkg_units = pc_rpm_units conduit @ pc_srpm_units conduit @
                         (if \<not> skip ''drpm'' then pc_drpm_units conduit else [])
         in case handle_symlinks ops pkg_units (working_dir r) pd w of
              (pkg_status, pkg_errors, ps, w') \<Rightarrow> (pkg_units, pkg_errors, Tracker ps, w')))"

text \<open>
  The end of \<^verbatim>\<open>publish_repo\<close>, from the computation of the relative path on: the
  removal of the old trees, the two protocol steps, the summary and the report. A true
  override of a publish directory that is not a string makes \<^verbatim>\<open>os.path.join\<close> raise
  \<^verbatim>\<open>AttributeError\<close> (the corner where the relative path still begins with a slash
  after the strip, so that the join never looks at the directory, is left out).
\<close>

definition publish_finish ::
  "'w world_ops \<Rightarrow> publish_conduit \<Rightarrow> repo \<Rightarrow> config
     \<Rightarrow> associated_unit list \<Rightarrow> error_tuple list \<Rightarrow> associated_unit list \<Rightarrow> error_tuple list
     \<Rightarrow> associated_unit list \<Rightarrow> associated_unit list \<Rightarrow> bool \<Rightarrow> string list
     \<Rightarrow> progress_status \<Rightarrow> scratchpad list \<Rightarrow> string option \<Rightarrow> 'w
     \<Rightarrow> exn + 'w publish_result" where
  "publish_finish ops conduit r config pkg_units pkg_errors distro_units distro_errors
       existing_groups existing_cats metadata_status metadata_errors prog calls pd w =
     (case stripped_relative_path r config of
        Inl e \<Rightarrow> Inl e
      | Inr relpath \<Rightarrow>
     (case get_https_publish_dir config of
        PStr https_dir \<Rightarrow>
     (case get_http_publish_dir config of
        PStr http_dir \<Rightarrow>
          (let https_repo_publish_dir = rstrip_slash (os_path_join https_dir relpath);
               http_repo_publish_dir = rstrip_slash (os_path_join http_dir relpath);
               w1 = remove_old_publish_dirs ops https_dir http_dir (pc_old_relative_path conduit) w
           in case publish_link ops (truthy (config_get config ''https'')) (working_dir r)
                     https_dir https_repo_publish_dir w1 of
                (https_state, https_entry, w2) \<Rightarrow>
              (case publish_link ops (truthy (config_get config ''http'')) (working_dir r)
                     http_dir http_repo_publish_dir w2 of
                (http_state, http_entry, w3) \<Rightarrow>
              (let summary = \<lparr>
                     https_publish_dir = https_entry,
                     http_publish_dir = http_entry,
                     num_package_units_attempted = int (length pkg_units),
                     num_package_units_published = int (length pkg_units) - int (length pkg_errors),
                     num_package_units_errors = int (length pkg_errors),
                     num_distribution_units_attempted = int (length distro_units),
                     num_distribution_units_published =
                       int (length distro_units) - int (length distro_errors),
                     num_distribution_units_errors = int (length distro_errors),
                     num_package_groups_published = int (length existing_groups),
                     num_package_categories_published = int (length existing_cats),
                     relative_path = relpath,
                     skip_metadata_update = (\<not> metadata_status \<and> metadata_errors = [])\<rparr>;
                   details = \<lparr>errors = pkg_errors @ distro_errors\<rparr>;
                   prog' = prog\<lparr>ps_publish_https := State_only https_state,
                                ps_publish_http := State_only http_state\<rparr>
               in Inr \<lparr>pr_report = (if errors details \<noteq> []
                                     then Failure_report summary details
                                     else Success_report summary details),
                        pr_progress = prog',
                        pr_set_scratchpad = calls,
                        pr_old_relative_path = Some relpath,
                        pr_package_dir = pd,
                        pr_world = w3\<rparr>)))
      | _ \<Rightarrow> Inl AttributeError)
      | _ \<Rightarrow> Inl AttributeError))"

text \<open>
  \<^verbatim>\<open>distributor_removed\<close>: what it raises, or the world it leaves, and the calls made
  on the certificate store and the listing of protected repositories.
\<close>

definition distributor_removed ::
  "'w world_ops \<Rightarrow> repo \<Rightarrow> config \<Rightarrow> 'w \<Rightarrow> (exn + 'w) \<times> auth_call list" where
  "distributor_removed ops r config w =
     (case stripped_relative_path r config of
        Inl e \<Rightarrow> (Inl e, [])
      | Inr repo_relative_path \<Rightarrow>
          (let calls = [Delete_for_repo (repo_id r), Delete_protected_repo repo_relative_path] in
           case get_https_publish_dir config of
             PStr https_dir \<Rightarrow>
               (case get_http_publish_dir config of
                  PStr http_dir \<Rightarrow>
                    (let https_repo_publish_dir =
                           rstrip_slash (os_path_join https_dir repo_relative_path);
                         http_repo_publish_dir =
                           rstrip_slash (os_path_join http_dir repo_relative_path);
                         w1 = (if os_path_exists ops https_repo_publish_dir w
                               then remove_repo_publish_dir ops https_dir https_repo_publish_dir w
                               else w)
                     in (Inr (if os_path_exists ops http_repo_publish_dir w1
                              then remove_repo_publish_dir ops http_dir http_repo_publish_dir w1
                              else w1), calls))
                | _ \<Rightarrow> (Inl AttributeError, calls))
           | _ \<Rightarrow> (Inl AttributeError, calls)))"

definition initial_progress_status :: progress_status where
  "initial_progress_status =
     \<lparr>ps_packages = State_only NOT_STARTED, ps_distribution = State_only NOT_STARTED,
      ps_metadata = State_only NOT_STARTED, ps_packagegroups = State_only NOT_STARTED,
      ps_publish_http = State_only NOT_STARTED, ps_publish_https = State_only NOT_STARTED\<rparr>"

text \<open>
  \<^verbatim>\<open>publish_repo\<close>. \<open>til\<close> is \<^verbatim>\<open>constants.TREE_INFO_LIST\<close>, \<open>pd\<close> the value of
  \<^verbatim>\<open>self.package_dir\<close> when the publish starts. The flag \<^verbatim>\<open>self.canceled\<close> is read
  at the start and again after the symlinking and the errata.
\<close>

definition publish_repo ::
  "'w world_ops \<Rightarrow> 'w metadata_ops \<Rightarrow> string list \<Rightarrow> publish_conduit \<Rightarrow> repo \<Rightarrow> config
     \<Rightarrow> string option \<Rightarrow> 'w \<Rightarrow> exn + 'w publish_result" where
  "publish_repo ops mops til conduit r config pd w =
     (if is_canceled ops w then
        Inr \<lparr>pr_report = Cancel_report, pr_progress = initial_progress_status,
             pr_set_scratchpad = [], pr_old_relative_path = pc_old_relative_path conduit,
             pr_package_dir = pd, pr_world = w\<rparr>
      else
     (case skip_test (config_get config ''skip'') of
        None \<Rightarrow> Inl TypeError
      | Some skip \<Rightarrow>
     (case publish_distribution ops til skip conduit r pd w of
        Inl e \<Rightarrow> Inl e
      | Inr (distro_units, distro_errors, distro_prog, calls, pd1, w1) \<Rightarrow>
     (case publish_packages ops skip conduit r pd1 w1 of
        (pkg_units, pkg_errors, pkg_prog, w2) \<Rightarrow>
     (case (if \<not> skip ''erratum''
            then updateinfo mops (pc_errata_units conduit) (working_dir r) w2
            else (None, w2)) of
        (updateinfo_xml_path, w3) \<Rightarrow>
     (let prog = initial_progress_status\<lparr>ps_distribution := distro_prog,
                                          ps_packages := pkg_prog\<rparr>
      in if is_canceled ops w3 then
           Inr \<lparr>pr_report = Cancel_report, pr_progress = prog,
                pr_set_scratchpad = calls, pr_old_relative_path = pc_old_relative_path conduit,
                pr_package_dir = pd1, pr_world = w3\<rparr>
         else
     (let existing_groups =
            (if \<not> skip ''packagegroup''
             then filter (\<lambda>u. type_id u = TYPE_ID_PKG_GROUP) (pc_group_category_units conduit)
             else []);
          existing_cats =
            (if \<not> skip ''packagegroup''
             then filter (\<lambda>u. type_id u = TYPE_ID_PKG_CATEGORY) (pc_group_category_units conduit)
             else [])
      in case (if \<not> skip ''packagegroup''
               then write_comps_xml mops (working_dir r) existing_groups existing_cats w3
               else (None, w3)) of
           (groups_xml_path, w4) \<Rightarrow>
     (case (if truthy (config_get config ''use_createrepo'')
            then generate_metadata mops (working_dir r) config groups_xml_path w4
            else generate_yum_metadata mops (repo_id r) (working_dir r) config
                   (is_canceled ops w4) groups_xml_path updateinfo_xml_path w4) of
        ((metadata_status, metadata_errors), w5) \<Rightarrow>
          publish_finish ops conduit r config pkg_units pkg_errors distro_units distro_errors
            existing_groups existing_cats metadata_status metadata_errors prog calls pd1 w5))))))))"

section \<open>An in-memory file system for the examples\<close>

record fsys =
  fs_files :: "path list"
  fs_links :: "(path \<times> path) list"
  fs_refused :: "path list"
  fs_raising :: "path list"
  fs_attempts :: "(path \<times> path) list"

text \<open>
  A small world on which the examples run: the files and directories that exist, the
  symbolic links (link path and target), the destinations at which the creation of a
  link is refused and those at which it raises, and the log of the attempts to create a
  link.
\<close>

definition mem_create_symlink :: "path \<Rightarrow> path \<Rightarrow> fsys \<Rightarrow> (string + bool) \<times> fsys" where
  \<comment> \<open>Modelled from the spec: \<^verbatim>\<open>util.create_symlink\<close>, which is not among the sources, on the in-memory file system.\<close>
  "mem_create_symlink src dst w =
     (let w' = w\<lparr>fs_attempts := fs_attempts w @ [(src, dst)]\<rparr> in
      if dst \<in> set (fs_raising w) then (Inl ''OSError'', w')
      else if dst \<in> set (fs_refused w) then (Inr False, w')
      else (Inr True, w'\<lparr>fs_links := (dst, src) # filter (\<lambda>l. fst l \<noteq> dst) (fs_links w)\<rparr>))"

definition mem_remove :: "path \<Rightarrow> path \<Rightarrow> fsys \<Rightarrow> fsys" where
  \<comment> \<open>Modelled from the spec: \<^verbatim>\<open>util.remove_repo_publish_dir\<close>, which is not among the sources, on the in-memory file system.\<close>
  "mem_remove root p w =
     w\<lparr>fs_links := filter (\<lambda>l. fst l \<noteq> p) (fs_links w),
       fs_files := filter (\<lambda>f. f \<noteq> p) (fs_files w)\<rparr>"

definition mem_exists :: "path \<Rightarrow> fsys \<Rightarrow> bool" where
  "mem_exists p w = (p \<in> set (fs_files w) \<or> p \<in> fst ` set (fs_links w))"

definition mem_ops :: "fsys world_ops" where
  \<comment> \<open>Modelled from the spec: the helpers of \<^verbatim>\<open>util\<close>, which is not among the sources, and the calls of \<^verbatim>\<open>os\<close>, on the in-memory file system.\<close>
  "mem_ops = \<lparr>
     os_path_exists = mem_exists,
     os_path_lexists = mem_exists,
     os_path_islink = (\<lambda>p w. p \<in> fst ` set (fs_links w)),
     os_unlink = (\<lambda>p w. w\<lparr>fs_links := filter (\<lambda>l. fst l \<noteq> p) (fs_links w)\<rparr>),
     os_makedirs = (\<lambda>p w. w\<lparr>fs_files := p # fs_files w\<rparr>),
     create_symlink = mem_create_symlink,
     remove_repo_publish_dir = mem_remove,
     generate_listing_files = (\<lambda>root p w. (None, w)),
     get_relpath_from_unit = unit_id,
     os_path_isdir = (\<lambda>p w. p \<in> set (fs_files w)),
     os_access_read = (\<lambda>p w. True),
     os_access_write = (\<lambda>p w. True),
     is_canceled = (\<lambda>w. False)\<rparr>"

definition mem_metadata_ops :: "fsys metadata_ops" where
  \<comment> \<open>Modelled from the spec: writers of metadata that report a failure with one error and leave the world alone.\<close>
  "mem_metadata_ops = \<lparr>
     updateinfo = (\<lambda>us d w. (None, w)),
     write_comps_xml = (\<lambda>d gs cs w. (None, w)),
     generate_metadata = (\<lambda>d c g w. ((False, [''metadata failed'']), w)),
     generate_yum_metadata = (\<lambda>i d c b g u w. ((False, [''metadata failed'']), w))\<rparr>"

definition mem_fs :: "path list \<Rightarrow> fsys" where
  "mem_fs fs = \<lparr>fs_files = fs, fs_links = [], fs_refused = [], fs_raising = [], fs_attempts = []\<rparr>"

definition distro :: "string \<Rightarrow> string list option \<Rightarrow> associated_unit" where
  "distro i fs = \<lparr>unit_id = i, type_id = ''distribution'', storage_path = ''/s/'' @ i,
     packagedir = None, files = fs\<rparr>"

definition rpm :: "string \<Rightarrow> associated_unit" where
  "rpm i = \<lparr>unit_id = i, type_id = ''rpm'', storage_path = ''/s/'' @ i,
     packagedir = None, files = None\<rparr>"

section \<open>The orphan pass\<close>

lemma orphan_loop_changed:
  "length m \<noteq> n \<Longrightarrow> orphan_loop ops ids wd n ks m w = Inl RuntimeError"
  by (cases ks) auto

lemma length_dict_del:
  "map_of m k = Some v \<Longrightarrow> length (dict_del k m) < length m"
  unfolding dict_del_def
  by (induction m) (auto simp: less_Suc_eq_le split: if_splits)

text \<open>
  As soon as the loop meets a key that is not the id of a current unit it cannot return:
  the deletion changes the size of the dictionary under iteration.
\<close>

lemma orphan_loop_raises:
  "k \<in> set ks \<Longrightarrow> k \<notin> set ids \<Longrightarrow> \<exists>e. orphan_loop ops ids wd n ks m w = Inl e"
proof (induction ks arbitrary: m w)
  case Nil
  then show ?case by simp
next
  case (Cons a ks)
  show ?case
  proof (cases "length m \<noteq> n")
    case True
    then show ?thesis by simp
  next
    case same: False
    show ?thesis
    proof (cases "a \<in> set ids")
      case True
      with Cons same show ?thesis by auto
    next
      case orphan: False
      show ?thesis
      proof (cases "map_of m a")
        case None
        with same orphan show ?thesis by simp
      next
        case (Some ps)
        from length_dict_del[OF Some] same have "length (dict_del a m) \<noteq> n"
          by simp
        then have "orphan_loop ops ids wd n ks (dict_del a m) (orphaned_paths_loop ops wd ps w)
                     = Inl RuntimeError"
          by (rule orphan_loop_changed)
        with same orphan Some show ?thesis by simp
      qed
    qed
  qed
qed

lemma handle_orphaned_distributions_raises:
  assumes "published_distribution_files sp = Some m"
    and "k \<in> set (map fst m)" and "k \<notin> set (map unit_id units)"
  shows "\<exists>e. handle_orphaned_distributions ops units wd sp w = Inl e"
proof -
  have "\<exists>e. orphan_loop ops (map unit_id units) wd (length m) (map fst m) m w = Inl e"
    using assms(2) assms(3) by (rule orphan_loop_raises)
  with assms(1) show ?thesis
    by (auto simp: handle_orphaned_distributions_def)
qed

text \<open>Without such a key the pass changes neither the manifest nor the world.\<close>

lemma orphan_loop_no_orphan:
  "set ks \<subseteq> set ids \<Longrightarrow> orphan_loop ops ids wd (length m) ks m w = Inr (m, w)"
  by (induction ks) auto

text \<open>
  Claim C1 (orphan reclamation). The claim says that the orphan pass removes the links
  of every unit id of the manifest that is no longer current, deletes its entry and
  leaves the other entries alone. On the scenario of the claim (the manifest holds U1
  with the paths a and b, alone or beside U2 with c, and U2 alone is current) the pass
  does not return: in either order of the dictionary, after U1's entry is deleted the
  loop asks for the next key of a dictionary whose size has changed, and
  \<^verbatim>\<open>RuntimeError\<close> leaves
  \<^verbatim>\<open>_handle_orphaned_distributions\<close> and \<^verbatim>\<open>symlink_distribution_unit_files\<close>; the
  manifest is never persisted.
\<close>

theorem orphan_pass_raises:
  "handle_orphaned_distributions ops [distro ''U2'' (Some [''c''])] ''/w''
     \<lparr>published_distribution_files = Some [(''U1'', [''/w/a'', ''/w/b''])]\<rparr> w
     = Inl RuntimeError
   \<and> handle_orphaned_distributions ops [distro ''U2'' (Some [''c''])] ''/w''
     \<lparr>published_distribution_files =
        Some [(''U1'', [''/w/a'', ''/w/b'']), (''U2'', [''/w/c''])]\<rparr> w = Inl RuntimeError
   \<and> handle_orphaned_distributions ops [distro ''U2'' (Some [''c''])] ''/w''
     \<lparr>published_distribution_files =
        Some [(''U2'', [''/w/c'']), (''U1'', [''/w/a'', ''/w/b''])]\<rparr> w = Inl RuntimeError
   \<and> symlink_distribution_unit_files ops til [distro ''U2'' (Some [''c''])] ''/w''
       (Some \<lparr>published_distribution_files =
          Some [(''U1'', [''/w/a'', ''/w/b'']), (''U2'', [''/w/c''])]\<rparr>) pd w = Inl RuntimeError"
  by (simp add: symlink_distribution_unit_files_def handle_orphaned_distributions_def
      dict_del_def distro_def)

section \<open>A unit without files\<close>

text \<open>
  Claim C3 (a unit whose metadata has no \<^verbatim>\<open>files\<close> key is logged and processed as
  having zero files, without raising, and the publish continues with the remaining
  units). The source logs the condition and then reads \<^verbatim>\<open>u.metadata['files']\<close>: for
  the units U1 without the key and U2 with one file, the publisher raises
  \<^verbatim>\<open>KeyError\<close> at U1 and never reaches U2.
\<close>

theorem missing_files_raises:
  "symlink_distribution_unit_files ops til
     [distro ''U1'' None, distro ''U2'' (Some [''b''])] ''/w'' None pd w = Inl KeyError"
  by (simp add: symlink_distribution_unit_files_def handle_orphaned_distributions_def
      symlink_distribution_unit_def distro_def)

section \<open>The characters of the relative URL\<close>

text \<open>
  Claim C7 (a \<^verbatim>\<open>relative_url\<close> with a character outside alphanumerics, slash,
  underscore and dash anywhere in the string is rejected). The check uses
  \<^verbatim>\<open>re.match\<close>, which looks at the start of the string only: the value \<^verbatim>\<open>a.b\<close> is
  accepted, and validation goes on to touch the listing of protected repositories under
  that path and returns \<^verbatim>\<open>(True, None)\<close>.
\<close>

theorem relative_url_inner_char_accepted:
  "validate_config ops vs (\<lambda>p i. []) r
     [(''relative_url'', PStr ''a.b''), (''http'', PBool True), (''https'', PBool True)] w
   = (Inr (True, None), [Delete_protected_repo ''a.b''])"
  by (simp add: validate_config_def REQUIRED_CONFIG_KEYS_def OPTIONAL_CONFIG_KEYS_def
      check_required_key_def check_relative_url_def check_boolean_def config_get_def
      re_match_disallowed_def allowed_char_def config_keys_def check_config_key_def
      stripped_relative_path_def get_repo_relative_path_def startswith_slash_def
      process_repo_auth_certificate_bundle_def check_publish_dir_def check_conflicts_def)

text \<open>The value \<^verbatim>\<open>../etc\<close> of the claim is rejected, as it starts with a dot.\<close>

lemma relative_url_leading_char_rejected:
  "validate_config ops vs conflicts r
     [(''relative_url'', PStr ''../etc''), (''http'', PBool True), (''https'', PBool True)] w
   = (Inr (False,
        Some (Msg ''relative_url must contain only alphanumerics, underscores, and dashes.'' [])),
      [])"
  by (simp add: validate_config_def REQUIRED_CONFIG_KEYS_def check_required_key_def
      check_relative_url_def config_get_def re_match_disallowed_def allowed_char_def)

section \<open>Evaluation on the in-memory file system\<close>

lemmas mem_simps = mem_fs_def mem_ops_def mem_create_symlink_def mem_exists_def mem_remove_def
  os_path_join_def startswith_slash_def endswith_slash_def init_progress_def Let_def
  distro_def rpm_def

lemmas distro_simps = symlink_distribution_unit_files_def handle_orphaned_distributions_def
  symlink_distribution_unit_def symlink_dfile_def

section \<open>The manifest after the per-unit pass\<close>

lemma symlink_distribution_units_append:
  "symlink_distribution_units ops til dir (us @ [u]) st =
     (case symlink_distribution_units ops til dir us st of
        Inl e \<Rightarrow> Inl e
      | Inr st1 \<Rightarrow>
          (case symlink_distribution_unit ops til dir u st1 of
             Inl e \<Rightarrow> Inl e
           | Inr (st', paths) \<Rightarrow> Inr st'))"
  by (induction us arbitrary: st) (auto split: sum.splits)

lemma scratchpad_single: "(sp::scratchpad)\<lparr>published_distribution_files := x\<rparr> = \<lparr>published_distribution_files = x\<rparr>"
  by (cases sp) simp

lemma symlink_distribution_unit_scratchpad:
  "symlink_distribution_unit ops til dir u st = Inr (st', paths) \<Longrightarrow>
     ds_scratchpad st' = \<lparr>published_distribution_files = Some [(unit_id u, paths)]\<rparr>"
  unfolding symlink_distribution_unit_def
  by (auto simp: Let_def scratchpad_single split: option.splits sum.splits prod.splits)

lemma symlink_distribution_unit_files_persist:
  "symlink_distribution_unit_files ops til units dir existing pd w = Inr dr \<Longrightarrow>
   \<exists>sp0 w0 st. handle_orphaned_distributions ops units dir
        (case existing of None \<Rightarrow> \<lparr>published_distribution_files = None\<rparr> | Some sp \<Rightarrow> sp) w = Inr (sp0, w0)
     \<and> symlink_distribution_units ops til dir units
          \<lparr>ds_world = w0, ds_progress = init_progress, ds_errors = [],
           ds_scratchpad = sp0, ds_package_dir = pd\<rparr> = Inr st
     \<and> dr_set_scratchpad dr = [ds_scratchpad st]"
  unfolding symlink_distribution_unit_files_def
  by (auto simp: Let_def split: sum.splits prod.splits if_splits bool.splits)

text \<open>
  Claim C2 (manifest write-through), as stated: after the per-unit pass the persisted
  manifest has an entry for every current unit, writing a unit's entry keeps the
  entries of the other units, and each entry is persisted right after its unit. For
  the units U1 (file a) and U2 (file b) the conduit receives one call of
  \<^verbatim>\<open>set_scratchpad\<close>, after both units, and the manifest it receives holds U2 alone.
\<close>

theorem manifest_write_through_counterexample:
  "map_sum (\<lambda>e. e) dr_set_scratchpad
     (symlink_distribution_unit_files mem_ops
          [''.treeinfo'', ''treeinfo'']
        [distro ''U1'' (Some [''a'']), distro ''U2'' (Some [''b''])] ''/w'' None None
        (mem_fs [''/s/U1/.treeinfo'', ''/s/U1/a'', ''/s/U2/.treeinfo'', ''/s/U2/b'']))
   = Inr [\<lparr>published_distribution_files = Some [(''U2'', [''/w/b''])]\<rparr>]"
  by code_simp

text \<open>
  Claim C2, amended: when the publisher returns for a sequence of units that is not
  empty, the manifest is persisted by exactly one call of \<^verbatim>\<open>set_scratchpad\<close>, made
  after all units have been processed, and the manifest persisted maps the id of the
  last unit to the full list of the paths produced for that unit in this pass (the
  list its per-unit step returns, run in the state the units before it left).
\<close>

theorem manifest_persisted_once:
  assumes "symlink_distribution_unit_files ops til units dir existing pd w = Inr dr"
    and "units \<noteq> []"
  shows "\<exists>sp0 w0 st st' paths.
           handle_orphaned_distributions ops units dir
             (case existing of None \<Rightarrow> \<lparr>published_distribution_files = None\<rparr> | Some sp \<Rightarrow> sp) w
             = Inr (sp0, w0)
         \<and> symlink_distribution_units ops til dir (butlast units)
             \<lparr>ds_world = w0, ds_progress = init_progress, ds_errors = [],
              ds_scratchpad = sp0, ds_package_dir = pd\<rparr> = Inr st
         \<and> symlink_distribution_unit ops til dir (last units) st = Inr (st', paths)
         \<and> dr_set_scratchpad dr =
             [\<lparr>published_distribution_files = Some [(unit_id (last units), paths)]\<rparr>]"
proof -
  from symlink_distribution_unit_files_persist[OF assms(1)] obtain sp0 w0 stf where
    orphan: "handle_orphaned_distributions ops units dir
        (case existing of None \<Rightarrow> \<lparr>published_distribution_files = None\<rparr> | Some sp \<Rightarrow> sp) w = Inr (sp0, w0)"
    and run: "symlink_distribution_units ops til dir units
          \<lparr>ds_world = w0, ds_progress = init_progress, ds_errors = [],
           ds_scratchpad = sp0, ds_package_dir = pd\<rparr> = Inr stf"
    and persisted: "dr_set_scratchpad dr = [ds_scratchpad stf]"
    by blast
  from assms(2) have split: "units = butlast units @ [last units]"
    by simp
  from run obtain st st' paths where
    prefix: "symlink_distribution_units ops til dir (butlast units)
          \<lparr>ds_world = w0, ds_progress = init_progress, ds_errors = [],
           ds_scratchpad = sp0, ds_package_dir = pd\<rparr> = Inr st"
    and final: "symlink_distribution_unit ops til dir (last units) st = Inr (st', paths)"
    and same: "stf = st'"
    by (subst (asm) split) (auto simp: symlink_distribution_units_append split: sum.splits)
  from symlink_distribution_unit_scratchpad[OF final] same persisted
  have "dr_set_scratchpad dr =
          [\<lparr>published_distribution_files = Some [(unit_id (last units), paths)]\<rparr>]"
    by simp
  with orphan prefix final show ?thesis
    by blast
qed

theorem manifest_persisted_once_witness:
  "[distro ''U1'' (Some [''a'']), distro ''U2'' (Some [''b''])] \<noteq> []
   \<and> (\<exists>dr st st' paths.
        symlink_distribution_unit_files mem_ops
          [''.treeinfo'', ''treeinfo'']
          [distro ''U1'' (Some [''a'']), distro ''U2'' (Some [''b''])] ''/w'' None None
          (mem_fs [''/s/U1/.treeinfo'', ''/s/U1/a'', ''/s/U2/.treeinfo'', ''/s/U2/b'']) = Inr dr
      \<and> symlink_distribution_unit mem_ops [''.treeinfo'', ''treeinfo''] ''/w'' (distro ''U2'' (Some [''b''])) st
          = Inr (st', paths)
      \<and> dr_set_scratchpad dr = [\<lparr>published_distribution_files = Some [(''U2'', paths)]\<rparr>])"
proof -
  have "case symlink_distribution_unit_files mem_ops
          [''.treeinfo'', ''treeinfo'']
          [distro ''U1'' (Some [''a'']), distro ''U2'' (Some [''b''])] ''/w'' None None
          (mem_fs [''/s/U1/.treeinfo'', ''/s/U1/a'', ''/s/U2/.treeinfo'', ''/s/U2/b'']) of
          Inl e \<Rightarrow> False
        | Inr dr \<Rightarrow> True"
    by code_simp
  then obtain dr where run: "symlink_distribution_unit_files mem_ops
          [''.treeinfo'', ''treeinfo'']
          [distro ''U1'' (Some [''a'']), distro ''U2'' (Some [''b''])] ''/w'' None None
          (mem_fs [''/s/U1/.treeinfo'', ''/s/U1/a'', ''/s/U2/.treeinfo'', ''/s/U2/b'']) = Inr dr"
    by (auto split: sum.splits)
  have nonempty: "[distro ''U1'' (Some [''a'']), distro ''U2'' (Some [''b''])] \<noteq> []"
    by simp
  from manifest_persisted_once[OF run nonempty] obtain st st' paths where
    "symlink_distribution_unit mem_ops [''.treeinfo'', ''treeinfo''] ''/w''
       (last [distro ''U1'' (Some [''a'']), distro ''U2'' (Some [''b''])]) st = Inr (st', paths)"
    "dr_set_scratchpad dr = [\<lparr>published_distribution_files =
       Some [(unit_id (last [distro ''U1'' (Some [''a'']), distro ''U2'' (Some [''b''])]), paths)]\<rparr>]"
    by blast
  then have "symlink_distribution_unit mem_ops [''.treeinfo'', ''treeinfo''] ''/w'' (distro ''U2'' (Some [''b''])) st
          = Inr (st', paths)
      \<and> dr_set_scratchpad dr = [\<lparr>published_distribution_files = Some [(''U2'', paths)]\<rparr>]"
    by (simp add: distro_def)
  with run nonempty show ?thesis
    by blast
qed

section \<open>Republication of files that exist already\<close>

lemma symlink_dfile_existing:
  "os_path_exists ops (os_path_join dir f) w \<Longrightarrow>
   symlink_dfile ops dir src f (w, ps, errs, pub) =
     (w, ps\<lparr>items_left := items_left ps - 1\<rparr>, errs, pub @ [os_path_join dir f])"
  by (simp add: symlink_dfile_def)

text \<open>
  Claim C4 (idempotent republication), as stated: on a second publish of the same
  units \<^verbatim>\<open>num_success\<close> equals \<^verbatim>\<open>items_total\<close>, a file that exists already being
  treated as a success. Publishing the unit U1 with the file a twice leaves the links as
  they are, and the second run ends with \<^verbatim>\<open>items_total = 1\<close> and
  \<^verbatim>\<open>num_success = 0\<close>.
\<close>

theorem republish_counterexample:
  "(case symlink_distribution_unit_files mem_ops
          [''.treeinfo'', ''treeinfo''] [distro ''U1'' (Some [''a''])] ''/w''
          None None (mem_fs [''/s/U1/.treeinfo'', ''/s/U1/a'']) of
      Inl e \<Rightarrow> False
    | Inr first \<Rightarrow>
        (case symlink_distribution_unit_files mem_ops
          [''.treeinfo'', ''treeinfo''] [distro ''U1'' (Some [''a''])] ''/w''
                (Some (last (dr_set_scratchpad first))) (dr_package_dir first) (dr_world first) of
           Inl e \<Rightarrow> False
         | Inr second \<Rightarrow>
             num_success (dr_progress second) = 0 \<and> items_total (dr_progress second) = 1
             \<and> items_left (dr_progress second) = 0 \<and> dr_status second
             \<and> set (fs_links (dr_world second)) = set (fs_links (dr_world first))))"
  by code_simp

text \<open>
  Claim C4, amended: when every declared file of a unit exists already at its
  destination path, as on a second publish of an unchanged unit set, the per-file pass
  creates no link and leaves the file system as it is; for each file the path is
  appended to the produced-paths list and \<^verbatim>\<open>items_left\<close> is decremented, and the
  file counts neither as success nor as error: \<^verbatim>\<open>num_success\<close> keeps its value and
  does not reach \<^verbatim>\<open>items_total\<close>.
\<close>

theorem republish_existing_files:
  assumes "\<forall>f\<in>set fs. os_path_exists ops (os_path_join dir f) w"
  shows "symlink_dfiles ops dir src fs (w, ps, errs, pub) =
           (w, ps\<lparr>items_left := items_left ps - int (length fs)\<rparr>, errs,
            pub @ map (os_path_join dir) fs)"
  using assms
proof (induction fs arbitrary: ps pub)
  case Nil
  then show ?case by simp
next
  case (Cons f fs)
  then have here: "os_path_exists ops (os_path_join dir f) w"
    and rest: "\<forall>f\<in>set fs. os_path_exists ops (os_path_join dir f) w"
    by simp_all
  show ?case
    by (simp add: symlink_dfile_existing[OF here] Cons.IH[OF rest] algebra_simps)
qed

theorem republish_existing_files_witness:
  "os_path_exists mem_ops (os_path_join ''/w'' ''a'') (mem_fs [''/w/a'', ''/w/b''])
   \<and> os_path_exists mem_ops (os_path_join ''/w'' ''b'') (mem_fs [''/w/a'', ''/w/b''])
   \<and> symlink_dfiles mem_ops ''/w'' ''/s/U1'' [''a'', ''b'']
       (mem_fs [''/w/a'', ''/w/b''], init_progress\<lparr>items_total := 2, items_left := 2\<rparr>, [], [])
     = (mem_fs [''/w/a'', ''/w/b''],
        \<lparr>state = IN_PROGRESS, num_success = 0, num_error = 0, items_left = 0, items_total = 2,
         error_details = []\<rparr>, [], [''/w/a'', ''/w/b''])"
proof -
  have h: "\<forall>f\<in>set [''a'', ''b'']. os_path_exists mem_ops (os_path_join ''/w'' f) (mem_fs [''/w/a'', ''/w/b''])"
    by (simp add: mem_simps)
  show ?thesis
    using h republish_existing_files[OF h, of "''/s/U1''" "init_progress\<lparr>items_total := 2, items_left := 2\<rparr>" "[]" "[]"]
    by (simp add: mem_simps)
qed

section \<open>The accounting of the package symlink reconciler\<close>

lemma handle_symlink_invariant:
  assumes "handle_symlink ops dir pd u (w, ps, errs) = (w', ps', errs')"
  shows "num_success ps' + num_error ps' + items_left ps' = num_success ps + num_error ps + items_left ps
       \<and> items_total ps' = items_total ps"
  using assms unfolding handle_symlink_def
  by (auto simp: Let_def split: if_splits prod.splits sum.splits bool.splits option.splits)

lemma handle_symlink_one:
  assumes step: "handle_symlink ops dir pd u (w, ps, errs) = (w', ps', errs')"
    and second: "\<not> second_link_refused ops dir pd u w"
  shows "items_left ps' = items_left ps - 1 \<and> items_total ps' = items_total ps
       \<and> (num_success ps' = num_success ps + 1 \<and> num_error ps' = num_error ps
          \<or> num_success ps' = num_success ps \<and> num_error ps' = num_error ps + 1)"
  using step second unfolding handle_symlink_def second_link_refused_def
  by (auto simp: Let_def split: if_splits prod.splits sum.splits bool.splits option.splits)

lemma handle_symlink_first_failed:
  assumes "\<not> os_path_exists ops (storage_path u) w
         \<or> fst (create_symlink ops (storage_path u)
                  (os_path_join dir (get_relpath_from_unit ops u)) w) \<noteq> Inr True"
  shows "fst (handle_symlink ops dir pd u (w, ps, errs)) =
           (if os_path_exists ops (storage_path u) w
            then snd (create_symlink ops (storage_path u)
                        (os_path_join dir (get_relpath_from_unit ops u)) w)
            else w)
       \<and> num_error (fst (snd (handle_symlink ops dir pd u (w, ps, errs)))) = num_error ps + 1
       \<and> num_success (fst (snd (handle_symlink ops dir pd u (w, ps, errs)))) = num_success ps"
  using assms unfolding handle_symlink_def
  by (auto simp: Let_def split: if_splits prod.splits sum.splits bool.splits option.splits)

lemma handle_symlinks_loop_accounting:
  assumes "\<not> second_link_refused_in_run ops dir pd units (w, ps, errs)"
    and "handle_symlinks_loop ops dir pd units (w, ps, errs) = (w', ps', errs')"
  shows "items_left ps' = items_left ps - int (length units)
       \<and> items_total ps' = items_total ps
       \<and> num_success ps' + num_error ps' = num_success ps + num_error ps + int (length units)"
  using assms
proof (induction units arbitrary: w ps errs)
  case Nil
  then show ?case by simp
next
  case (Cons u us)
  obtain w1 ps1 errs1 where step: "handle_symlink ops dir pd u (w, ps, errs) = (w1, ps1, errs1)"
    by (metis prod_cases3)
  from Cons.prems(1) step have here: "\<not> second_link_refused ops dir pd u w"
    and rest: "\<not> second_link_refused_in_run ops dir pd us (w1, ps1, errs1)"
    by simp_all
  from Cons.prems(2) step have "handle_symlinks_loop ops dir pd us (w1, ps1, errs1) = (w', ps', errs')"
    by simp
  from Cons.IH[OF rest this] handle_symlink_one[OF step here]
  show ?case by auto
qed

text \<open>
  Claim C5 (accounting of the symlink reconciler), as stated: every unit increments
  exactly one of \<^verbatim>\<open>num_success\<close> and \<^verbatim>\<open>num_error\<close> and decrements
  \<^verbatim>\<open>items_left\<close> by one, and with a package subdirectory the second link is attempted
  whether or not the first succeeded. With the package subdirectory \<^verbatim>\<open>Packages\<close>, the
  unit A whose first link is refused gets no attempt at its second link, and the unit B
  whose second link is refused is counted as an error and as a success and decrements
  \<^verbatim>\<open>items_left\<close> twice: two units end with \<^verbatim>\<open>num_success + num_error = 3\<close> and
  \<^verbatim>\<open>items_left = -1\<close>.
\<close>

theorem reconciler_accounting_counterexample:
  "handle_symlinks mem_ops [rpm ''A'', rpm ''B''] ''/w'' (Some ''Packages'')
     ((mem_fs [''/s/A'', ''/s/B''])\<lparr>fs_refused := [''/w/A'', ''/w/Packages/B'']\<rparr>)
   = (False,
      [(''/s/A'', ''/w/A'', ''Unable to create symlink for: /w/A pointing to /s/A''),
       (''/s/B'', ''/w/Packages/B'',
        ''Unable to create symlink for: /w/Packages/B pointing to /s/B'')],
      \<lparr>state = IN_PROGRESS, num_success = 1, num_error = 2, items_left = - 1, items_total = 2,
       error_details =
         [(''/s/A'', ''/w/A'', ''Unable to create symlink for: /w/A pointing to /s/A''),
          (''/s/B'', ''/w/Packages/B'',
           ''Unable to create symlink for: /w/Packages/B pointing to /s/B'')]\<rparr>,
      \<lparr>fs_files = [''/s/A'', ''/s/B''], fs_links = [(''/w/B'', ''/s/B'')],
       fs_refused = [''/w/A'', ''/w/Packages/B''], fs_raising = [],
       fs_attempts = [(''/s/A'', ''/w/A''), (''/s/B'', ''/w/B''), (''/s/B'', ''/w/Packages/B'')]\<rparr>)"
  by code_simp

text \<open>
  Claim C5, amended: every unit whose second link (under the package subdirectory) is
  not refused increments exactly one of \<^verbatim>\<open>num_success\<close> and \<^verbatim>\<open>num_error\<close> and
  decrements \<^verbatim>\<open>items_left\<close> by one; hence, when no unit of the run has its second
  link refused, after the loop \<^verbatim>\<open>num_success + num_error\<close> equals \<^verbatim>\<open>items_total\<close>,
  the number of units, and \<^verbatim>\<open>items_left\<close> is zero. The second link is attempted
  only after the first link has succeeded: a unit whose source is missing or whose first
  link fails is counted as one error, and the world after it is the world right after
  the first attempt (unchanged when the source is missing).
\<close>

theorem handle_symlinks_accounting:
  assumes "\<not> second_link_refused_in_run ops dir pd units
             (w, init_progress\<lparr>items_total := int (length units),
                                items_left := int (length units)\<rparr>, [])"
  shows "(case handle_symlinks ops units dir pd w of
            (ok, errs, ps, w') \<Rightarrow>
              num_success ps + num_error ps = items_total ps \<and> items_left ps = 0
              \<and> items_total ps = int (length units))
       \<and> (\<forall>u v ps errs.
             \<not> second_link_refused ops dir pd u v \<longrightarrow>
             (case handle_symlink ops dir pd u (v, ps, errs) of
                (v', ps', errs') \<Rightarrow>
                  items_left ps' = items_left ps - 1
                  \<and> (num_success ps' = num_success ps + 1 \<and> num_error ps' = num_error ps
                     \<or> num_success ps' = num_success ps \<and> num_error ps' = num_error ps + 1)))
       \<and> (\<forall>u v ps errs.
             \<not> os_path_exists ops (storage_path u) v
             \<or> fst (create_symlink ops (storage_path u)
                      (os_path_join dir (get_relpath_from_unit ops u)) v) \<noteq> Inr True
             \<longrightarrow> fst (handle_symlink ops dir pd u (v, ps, errs)) =
                   (if os_path_exists ops (storage_path u) v
                    then snd (create_symlink ops (storage_path u)
                                (os_path_join dir (get_relpath_from_unit ops u)) v)
                    else v)
               \<and> num_error (fst (snd (handle_symlink ops dir pd u (v, ps, errs)))) = num_error ps + 1
               \<and> num_success (fst (snd (handle_symlink ops dir pd u (v, ps, errs)))) = num_success ps)"
proof -
  obtain w' ps' errs' where loop:
    "handle_symlinks_loop ops dir pd units
       (w, init_progress\<lparr>items_total := int (length units), items_left := int (length units)\<rparr>, [])
     = (w', ps', errs')"
    by (metis prod_cases3)
  from handle_symlinks_loop_accounting[OF assms loop]
  have "items_left ps' = 0 \<and> items_total ps' = int (length units)
        \<and> num_success ps' + num_error ps' = int (length units)"
    by (simp add: init_progress_def)
  then have "case handle_symlinks ops units dir pd w of
            (ok, errs, ps, w') \<Rightarrow>
              num_success ps + num_error ps = items_total ps \<and> items_left ps = 0
              \<and> items_total ps = int (length units)"
    by (simp add: handle_symlinks_def loop)
  moreover have "\<forall>u v ps errs.
             \<not> second_link_refused ops dir pd u v \<longrightarrow>
             (case handle_symlink ops dir pd u (v, ps, errs) of
                (v', ps', errs') \<Rightarrow>
                  items_left ps' = items_left ps - 1
                  \<and> (num_success ps' = num_success ps + 1 \<and> num_error ps' = num_error ps
                     \<or> num_success ps' = num_success ps \<and> num_error ps' = num_error ps + 1))"
  proof (intro allI impI)
    fix u v ps errs
    assume ok: "\<not> second_link_refused ops dir pd u v"
    obtain v' ps' errs' where step: "handle_symlink ops dir pd u (v, ps, errs) = (v', ps', errs')"
      by (metis prod_cases3)
    from handle_symlink_one[OF step ok]
    show "case handle_symlink ops dir pd u (v, ps, errs) of
                (v', ps', errs') \<Rightarrow>
                  items_left ps' = items_left ps - 1
                  \<and> (num_success ps' = num_success ps + 1 \<and> num_error ps' = num_error ps
                     \<or> num_success ps' = num_success ps \<and> num_error ps' = num_error ps + 1)"
      by (simp add: step)
  qed
  moreover have "\<forall>u v ps errs.
             \<not> os_path_exists ops (storage_path u) v
             \<or> fst (create_symlink ops (storage_path u)
                      (os_path_join dir (get_relpath_from_unit ops u)) v) \<noteq> Inr True
             \<longrightarrow> fst (handle_symlink ops dir pd u (v, ps, errs)) =
                   (if os_path_exists ops (storage_path u) v
                    then snd (create_symlink ops (storage_path u)
                                (os_path_join dir (get_relpath_from_unit ops u)) v)
                    else v)
               \<and> num_error (fst (snd (handle_symlink ops dir pd u (v, ps, errs)))) = num_error ps + 1
               \<and> num_success (fst (snd (handle_symlink ops dir pd u (v, ps, errs)))) = num_success ps"
    by (intro allI impI) (rule handle_symlink_first_failed)
  ultimately show ?thesis by blast
qed

theorem handle_symlinks_accounting_witness:
  "\<not> second_link_refused_in_run mem_ops ''/w'' (Some ''Packages'')
       [rpm ''A'', rpm ''B'', rpm ''C'']
       ((mem_fs [''/s/A'', ''/s/B''])\<lparr>fs_refused := [''/w/B'']\<rparr>,
        init_progress\<lparr>items_total := 3, items_left := 3\<rparr>, [])
   \<and> (case handle_symlinks mem_ops [rpm ''A'', rpm ''B'', rpm ''C''] ''/w'' (Some ''Packages'')
           ((mem_fs [''/s/A'', ''/s/B''])\<lparr>fs_refused := [''/w/B'']\<rparr>) of
      (ok, errs, ps, w') \<Rightarrow>
        num_success ps + num_error ps = items_total ps \<and> items_left ps = 0
        \<and> items_total ps = 3 \<and> num_success ps = 1 \<and> num_error ps = 2
        \<and> fs_attempts w' = [(''/s/A'', ''/w/A''), (''/s/A'', ''/w/Packages/A''),
                             (''/s/B'', ''/w/B'')])"
proof -
  have h: "\<not> second_link_refused_in_run mem_ops ''/w'' (Some ''Packages'')
       [rpm ''A'', rpm ''B'', rpm ''C'']
       ((mem_fs [''/s/A'', ''/s/B''])\<lparr>fs_refused := [''/w/B'']\<rparr>,
        init_progress\<lparr>items_total := int (length [rpm ''A'', rpm ''B'', rpm ''C'']),
                       items_left := int (length [rpm ''A'', rpm ''B'', rpm ''C''])\<rparr>, [])"
    by code_simp
  have counts: "case handle_symlinks mem_ops [rpm ''A'', rpm ''B'', rpm ''C''] ''/w''
           (Some ''Packages'') ((mem_fs [''/s/A'', ''/s/B''])\<lparr>fs_refused := [''/w/B'']\<rparr>) of
      (ok, errs, ps, w') \<Rightarrow> items_total ps = 3 \<and> num_success ps = 1 \<and> num_error ps = 2
        \<and> fs_attempts w' = [(''/s/A'', ''/w/A''), (''/s/A'', ''/w/Packages/A''),
                             (''/s/B'', ''/w/B'')]"
    by code_simp
  from handle_symlinks_accounting[OF h] counts h
  show ?thesis
    by (auto split: prod.splits)
qed

section \<open>The orchestrator: the report and the two protocols\<close>

text \<open>
  A publish that returns a report other than a cancel report has gone through the
  distribution phase, the package phase and the end of \<^verbatim>\<open>publish_repo\<close>.
\<close>

lemma publish_repo_phases:
  assumes "publish_repo ops mops til conduit r config pd w = Inr res"
    and "\<not> is_cancel (pr_report res)"
  shows "\<exists>skip distro_units distro_errors dprog calls pd1 w1 pkg_units pkg_errors pprog w2
            groups cats mstat merrs w5.
           skip_test (config_get config ''skip'') = Some skip
         \<and> publish_distribution ops til skip conduit r pd w
             = Inr (distro_units, distro_errors, dprog, calls, pd1, w1)
         \<and> publish_packages ops skip conduit r pd1 w1 = (pkg_units, pkg_errors, pprog, w2)
         \<and> publish_finish ops conduit r config pkg_units pkg_errors distro_units distro_errors
              groups cats mstat merrs
              (initial_progress_status\<lparr>ps_distribution := dprog, ps_packages := pprog\<rparr>)
              calls pd1 w5 = Inr res"
proof -
  from assms(1) assms(2) have nc: "\<not> is_canceled ops w"
    by (auto simp: publish_repo_def split: if_splits)
  from assms(1) nc obtain skip where skip: "skip_test (config_get config ''skip'') = Some skip"
    by (auto simp: publish_repo_def split: option.splits)
  from assms(1) nc skip obtain distro_units distro_errors dprog calls pd1 w1 where
    d: "publish_distribution ops til skip conduit r pd w
             = Inr (distro_units, distro_errors, dprog, calls, pd1, w1)"
    by (auto simp: publish_repo_def split: sum.splits)
  obtain pkg_units pkg_errors pprog w2 where
    p: "publish_packages ops skip conduit r pd1 w1 = (pkg_units, pkg_errors, pprog, w2)"
    by (metis prod_cases4)
  from assms nc skip d p have "\<exists>groups cats mstat merrs w5. publish_finish ops conduit r config pkg_units pkg_errors distro_units distro_errors
              groups cats mstat merrs
              (initial_progress_status\<lparr>ps_distribution := dprog, ps_packages := pprog\<rparr>)
              calls pd1 w5 = Inr res"
    unfolding publish_repo_def
    by (auto simp: Let_def split: prod.splits if_splits) blast+
  with skip d p show ?thesis by blast
qed

lemma publish_link_disabled:
  "publish_link ops False wd pdir rdir v =
     (SKIPPED, None,
      if os_path_lexists ops rdir v then remove_repo_publish_dir ops pdir rdir v else v)"
  by (simp add: publish_link_def)

lemma publish_link_enabled:
  "fst (publish_link ops True wd pdir rdir v) =
     (if isl (fst (create_symlink ops wd rdir v))
         \<or> fst (generate_listing_files ops pdir rdir (snd (create_symlink ops wd rdir v))) \<noteq> None
      then FAILED else FINISHED)
   \<and> snd (snd (publish_link ops True wd pdir rdir v)) =
     (if isl (fst (create_symlink ops wd rdir v)) then snd (create_symlink ops wd rdir v)
      else snd (generate_listing_files ops pdir rdir (snd (create_symlink ops wd rdir v))))"
  by (auto simp: publish_link_def split: prod.splits sum.splits option.splits)

lemma publish_finish_result:
  assumes "publish_finish ops conduit r config pkg_units pkg_errors distro_units distro_errors
             groups cats mstat merrs prog calls pd1 w5 = Inr res"
  shows "\<exists>relpath https_dir http_dir.
           stripped_relative_path r config = Inr relpath
         \<and> get_https_publish_dir config = PStr https_dir
         \<and> get_http_publish_dir config = PStr http_dir
         \<and> report_errors (pr_report res) = pkg_errors @ distro_errors
         \<and> is_failure (pr_report res) = (pkg_errors @ distro_errors \<noteq> [])
         \<and> is_success (pr_report res) = (pkg_errors @ distro_errors = [])
         \<and> map_option relative_path (report_summary (pr_report res)) = Some relpath
         \<and> pr_old_relative_path res = Some relpath
         \<and> (let w1 = remove_old_publish_dirs ops https_dir http_dir
                         (pc_old_relative_path conduit) w5;
                 https_step = publish_link ops (truthy (config_get config ''https''))
                     (working_dir r) https_dir (rstrip_slash (os_path_join https_dir relpath)) w1;
                 http_step = publish_link ops (truthy (config_get config ''http''))
                     (working_dir r) http_dir (rstrip_slash (os_path_join http_dir relpath))
                     (snd (snd https_step))
             in ps_publish_https (pr_progress res) = State_only (fst https_step)
              \<and> ps_publish_http (pr_progress res) = State_only (fst http_step)
              \<and> pr_world res = snd (snd http_step))"
  using assms unfolding publish_finish_def
  by (auto simp: Let_def split: sum.splits pyval.splits prod.splits if_splits)

text \<open>
  Claim C6 (overall publish result): a publish that runs to completion returns a
  failure report if and only if the package errors followed by the distribution errors
  are not empty, and a success report otherwise. The errors are those of the two
  symlinking phases, whatever the writers of metadata return and whatever the states of
  the other phases are.
\<close>

theorem publish_result_iff_errors:
  assumes "publish_repo ops mops til conduit r config pd w = Inr res"
    and "\<not> is_cancel (pr_report res)"
  shows "\<exists>skip distro_units distro_errors dprog calls pd1 w1 pkg_units pkg_errors pprog w2.
           skip_test (config_get config ''skip'') = Some skip
         \<and> publish_distribution ops til skip conduit r pd w
             = Inr (distro_units, distro_errors, dprog, calls, pd1, w1)
         \<and> publish_packages ops skip conduit r pd1 w1 = (pkg_units, pkg_errors, pprog, w2)
         \<and> report_errors (pr_report res) = pkg_errors @ distro_errors
         \<and> is_failure (pr_report res) = (pkg_errors @ distro_errors \<noteq> [])
         \<and> is_success (pr_report res) = (pkg_errors @ distro_errors = [])"
proof -
  from publish_repo_phases[OF assms] obtain skip distro_units distro_errors dprog calls pd1 w1
      pkg_units pkg_errors pprog w2 groups cats mstat merrs w5 where
    phases: "skip_test (config_get config ''skip'') = Some skip"
      "publish_distribution ops til skip conduit r pd w
         = Inr (distro_units, distro_errors, dprog, calls, pd1, w1)"
      "publish_packages ops skip conduit r pd1 w1 = (pkg_units, pkg_errors, pprog, w2)"
    and finish: "publish_finish ops conduit r config pkg_units pkg_errors distro_units
        distro_errors groups cats mstat merrs
        (initial_progress_status\<lparr>ps_distribution := dprog, ps_packages := pprog\<rparr>)
        calls pd1 w5 = Inr res"
    by blast
  from publish_finish_result[OF finish]
  have "report_errors (pr_report res) = pkg_errors @ distro_errors
      \<and> is_failure (pr_report res) = (pkg_errors @ distro_errors \<noteq> [])
      \<and> is_success (pr_report res) = (pkg_errors @ distro_errors = [])"
    by blast
  with phases show ?thesis
    by blast
qed

theorem publish_result_iff_errors_witness:
  "\<exists>res. publish_repo mem_ops mem_metadata_ops []
       \<lparr>pc_distro_units = [], pc_rpm_units = [rpm ''A''], pc_srpm_units = [],
        pc_drpm_units = [], pc_errata_units = [], pc_group_category_units = [],
        pc_scratchpad = None, pc_old_relative_path = None\<rparr>
       \<lparr>repo_id = ''r1'', working_dir = ''/wd''\<rparr>
       [(''relative_url'', PStr ''r''), (''http'', PBool True), (''https'', PBool False)] None
       (mem_fs [''/s/A'']) = Inr res
     \<and> \<not> is_cancel (pr_report res) \<and> report_errors (pr_report res) = []
     \<and> \<not> is_failure (pr_report res) \<and> is_success (pr_report res)
     \<and> ps_publish_https (pr_progress res) = State_only SKIPPED"
proof -
  have "case publish_repo mem_ops mem_metadata_ops []
       \<lparr>pc_distro_units = [], pc_rpm_units = [rpm ''A''], pc_srpm_units = [],
        pc_drpm_units = [], pc_errata_units = [], pc_group_category_units = [],
        pc_scratchpad = None, pc_old_relative_path = None\<rparr>
       \<lparr>repo_id = ''r1'', working_dir = ''/wd''\<rparr>
       [(''relative_url'', PStr ''r''), (''http'', PBool True), (''https'', PBool False)] None
       (mem_fs [''/s/A'']) of
      Inl e \<Rightarrow> False
    | Inr res \<Rightarrow> \<not> is_cancel (pr_report res) \<and> report_errors (pr_report res) = []
        \<and> ps_publish_https (pr_progress res) = State_only SKIPPED"
    by code_simp
  then obtain res where run: "publish_repo mem_ops mem_metadata_ops []
       \<lparr>pc_distro_units = [], pc_rpm_units = [rpm ''A''], pc_srpm_units = [],
        pc_drpm_units = [], pc_errata_units = [], pc_group_category_units = [],
        pc_scratchpad = None, pc_old_relative_path = None\<rparr>
       \<lparr>repo_id = ''r1'', working_dir = ''/wd''\<rparr>
       [(''relative_url'', PStr ''r''), (''http'', PBool True), (''https'', PBool False)] None
       (mem_fs [''/s/A'']) = Inr res"
    and nc: "\<not> is_cancel (pr_report res)"
    and none: "report_errors (pr_report res) = []"
    and skipped: "ps_publish_https (pr_progress res) = State_only SKIPPED"
    by (auto split: sum.splits)
  from publish_result_iff_errors[OF run nc] none
  have "\<not> is_failure (pr_report res) \<and> is_success (pr_report res)"
    by auto
  with run nc none skipped show ?thesis
    by blast
qed

text \<open>
  Claim C9 (protocol independence): the HTTPS step and then the HTTP step are each run
  by the same procedure, the HTTP step on the world the HTTPS step left, whatever state
  the HTTPS step ended in. A disabled protocol is marked \<^verbatim>\<open>SKIPPED\<close> and its publish
  directory is removed when it exists; an enabled protocol has its link created and its
  listing files generated, and ends \<^verbatim>\<open>FAILED\<close> exactly when one of the two calls
  raises, \<^verbatim>\<open>FINISHED\<close> otherwise.
\<close>

theorem protocols_published_independently:
  assumes "publish_repo ops mops til conduit r config pd w = Inr res"
    and "\<not> is_cancel (pr_report res)"
  shows "(\<exists>relpath https_dir http_dir w1.
           stripped_relative_path r config = Inr relpath
         \<and> get_https_publish_dir config = PStr https_dir
         \<and> get_http_publish_dir config = PStr http_dir
         \<and> (let https_step = publish_link ops (truthy (config_get config ''https''))
                     (working_dir r) https_dir (rstrip_slash (os_path_join https_dir relpath)) w1;
                 http_step = publish_link ops (truthy (config_get config ''http''))
                     (working_dir r) http_dir (rstrip_slash (os_path_join http_dir relpath))
                     (snd (snd https_step))
             in ps_publish_https (pr_progress res) = State_only (fst https_step)
              \<and> ps_publish_http (pr_progress res) = State_only (fst http_step)
              \<and> pr_world res = snd (snd http_step)))
       \<and> (\<forall>wd pdir rdir v.
             publish_link ops False wd pdir rdir v =
               (SKIPPED, None,
                if os_path_lexists ops rdir v then remove_repo_publish_dir ops pdir rdir v else v)
           \<and> fst (publish_link ops True wd pdir rdir v) =
               (if isl (fst (create_symlink ops wd rdir v))
                   \<or> fst (generate_listing_files ops pdir rdir (snd (create_symlink ops wd rdir v)))
                       \<noteq> None
                then FAILED else FINISHED)
           \<and> snd (snd (publish_link ops True wd pdir rdir v)) =
               (if isl (fst (create_symlink ops wd rdir v)) then snd (create_symlink ops wd rdir v)
                else snd (generate_listing_files ops pdir rdir (snd (create_symlink ops wd rdir v)))))"
proof -
  from publish_repo_phases[OF assms] obtain pkg_units pkg_errors distro_units distro_errors
      groups cats mstat merrs prog calls pd1 w5 where
    finish: "publish_finish ops conduit r config pkg_units pkg_errors distro_units
        distro_errors groups cats mstat merrs prog calls pd1 w5 = Inr res"
    by blast
  from publish_finish_result[OF finish]
  have "\<exists>relpath https_dir http_dir w1.
           stripped_relative_path r config = Inr relpath
         \<and> get_https_publish_dir config = PStr https_dir
         \<and> get_http_publish_dir config = PStr http_dir
         \<and> (let https_step = publish_link ops (truthy (config_get config ''https''))
                     (working_dir r) https_dir (rstrip_slash (os_path_join https_dir relpath)) w1;
                 http_step = publish_link ops (truthy (config_get config ''http''))
                     (working_dir r) http_dir (rstrip_slash (os_path_join http_dir relpath))
                     (snd (snd https_step))
             in ps_publish_https (pr_progress res) = State_only (fst https_step)
              \<and> ps_publish_http (pr_progress res) = State_only (fst http_step)
              \<and> pr_world res = snd (snd http_step))"
    unfolding Let_def by blast
  moreover have "\<forall>wd pdir rdir v.
             publish_link ops False wd pdir rdir v =
               (SKIPPED, None,
                if os_path_lexists ops rdir v then remove_repo_publish_dir ops pdir rdir v else v)
           \<and> fst (publish_link ops True wd pdir rdir v) =
               (if isl (fst (create_symlink ops wd rdir v))
                   \<or> fst (generate_listing_files ops pdir rdir (snd (create_symlink ops wd rdir v)))
                       \<noteq> None
                then FAILED else FINISHED)
           \<and> snd (snd (publish_link ops True wd pdir rdir v)) =
               (if isl (fst (create_symlink ops wd rdir v)) then snd (create_symlink ops wd rdir v)
                else snd (generate_listing_files ops pdir rdir (snd (create_symlink ops wd rdir v))))"
  proof (intro allI conjI)
    fix wd pdir rdir v
    show "publish_link ops False wd pdir rdir v =
               (SKIPPED, None,
                if os_path_lexists ops rdir v then remove_repo_publish_dir ops pdir rdir v else v)"
      by (rule publish_link_disabled)
    show "fst (publish_link ops True wd pdir rdir v) =
               (if isl (fst (create_symlink ops wd rdir v))
                   \<or> fst (generate_listing_files ops pdir rdir (snd (create_symlink ops wd rdir v)))
                       \<noteq> None
                then FAILED else FINISHED)"
      by (rule publish_link_enabled[THEN conjunct1])
    show "snd (snd (publish_link ops True wd pdir rdir v)) =
               (if isl (fst (create_symlink ops wd rdir v)) then snd (create_symlink ops wd rdir v)
                else snd (generate_listing_files ops pdir rdir (snd (create_symlink ops wd rdir v))))"
      by (rule publish_link_enabled[THEN conjunct2])
  qed
  ultimately show ?thesis
    by (rule conjI)
qed

theorem protocols_published_independently_witness:
  "\<exists>res relpath https_dir http_dir.
       publish_repo mem_ops mem_metadata_ops []
       \<lparr>pc_distro_units = [], pc_rpm_units = [rpm ''A''], pc_srpm_units = [],
        pc_drpm_units = [], pc_errata_units = [], pc_group_category_units = [],
        pc_scratchpad = None, pc_old_relative_path = None\<rparr>
       \<lparr>repo_id = ''r1'', working_dir = ''/wd''\<rparr>
       [(''relative_url'', PStr ''r''), (''http'', PBool True), (''https'', PBool True),
        (''https_publish_dir'', PStr ''/s''), (''http_publish_dir'', PStr ''/h'')] None
       ((mem_fs [''/s/A''])\<lparr>fs_raising := [''/s/r'']\<rparr>) = Inr res
     \<and> \<not> is_cancel (pr_report res)
     \<and> stripped_relative_path \<lparr>repo_id = ''r1'', working_dir = ''/wd''\<rparr>
       [(''relative_url'', PStr ''r''), (''http'', PBool True), (''https'', PBool True),
        (''https_publish_dir'', PStr ''/s''), (''http_publish_dir'', PStr ''/h'')] = Inr relpath
     \<and> get_https_publish_dir
       [(''relative_url'', PStr ''r''), (''http'', PBool True), (''https'', PBool True),
        (''https_publish_dir'', PStr ''/s''), (''http_publish_dir'', PStr ''/h'')] = PStr https_dir
     \<and> get_http_publish_dir
       [(''relative_url'', PStr ''r''), (''http'', PBool True), (''https'', PBool True),
        (''https_publish_dir'', PStr ''/s''), (''http_publish_dir'', PStr ''/h'')] = PStr http_dir
     \<and> ps_publish_https (pr_progress res) = State_only FAILED
     \<and> ps_publish_http (pr_progress res) = State_only FINISHED
     \<and> (''/h/r'', ''/wd'') \<in> set (fs_links (pr_world res))"
proof -
  have "case publish_repo mem_ops mem_metadata_ops []
       \<lparr>pc_distro_units = [], pc_rpm_units = [rpm ''A''], pc_srpm_units = [],
        pc_drpm_units = [], pc_errata_units = [], pc_group_category_units = [],
        pc_scratchpad = None, pc_old_relative_path = None\<rparr>
       \<lparr>repo_id = ''r1'', working_dir = ''/wd''\<rparr>
       [(''relative_url'', PStr ''r''), (''http'', PBool True), (''https'', PBool True),
        (''https_publish_dir'', PStr ''/s''), (''http_publish_dir'', PStr ''/h'')] None
       ((mem_fs [''/s/A''])\<lparr>fs_raising := [''/s/r'']\<rparr>) of
      Inl e \<Rightarrow> False
    | Inr res \<Rightarrow> \<not> is_cancel (pr_report res)
        \<and> ps_publish_https (pr_progress res) = State_only FAILED
        \<and> ps_publish_http (pr_progress res) = State_only FINISHED
        \<and> (''/h/r'', ''/wd'') \<in> set (fs_links (pr_world res))"
    by code_simp
  then obtain res where run: "publish_repo mem_ops mem_metadata_ops []
       \<lparr>pc_distro_units = [], pc_rpm_units = [rpm ''A''], pc_srpm_units = [],
        pc_drpm_units = [], pc_errata_units = [], pc_group_category_units = [],
        pc_scratchpad = None, pc_old_relative_path = None\<rparr>
       \<lparr>repo_id = ''r1'', working_dir = ''/wd''\<rparr>
       [(''relative_url'', PStr ''r''), (''http'', PBool True), (''https'', PBool True),
        (''https_publish_dir'', PStr ''/s''), (''http_publish_dir'', PStr ''/h'')] None
       ((mem_fs [''/s/A''])\<lparr>fs_raising := [''/s/r'']\<rparr>) = Inr res"
    and nc: "\<not> is_cancel (pr_report res)"
    and states: "ps_publish_https (pr_progress res) = State_only FAILED"
      "ps_publish_http (pr_progress res) = State_only FINISHED"
      "(''/h/r'', ''/wd'') \<in> set (fs_links (pr_world res))"
    by (auto split: sum.splits)
  from protocols_published_independently[OF run nc] obtain relpath https_dir http_dir where
    "stripped_relative_path \<lparr>repo_id = ''r1'', working_dir = ''/wd''\<rparr>
       [(''relative_url'', PStr ''r''), (''http'', PBool True), (''https'', PBool True),
        (''https_publish_dir'', PStr ''/s''), (''http_publish_dir'', PStr ''/h'')] = Inr relpath"
    "get_https_publish_dir
       [(''relative_url'', PStr ''r''), (''http'', PBool True), (''https'', PBool True),
        (''https_publish_dir'', PStr ''/s''), (''http_publish_dir'', PStr ''/h'')] = PStr https_dir"
    "get_http_publish_dir
       [(''relative_url'', PStr ''r''), (''http'', PBool True), (''https'', PBool True),
        (''https_publish_dir'', PStr ''/s''), (''http_publish_dir'', PStr ''/h'')] = PStr http_dir"
    by blast
  with run nc states show ?thesis
    by blast
qed

section \<open>What validation has done when it rejects\<close>

lemma process_bundle_nonempty:
  "process_repo_auth_certificate_bundle rid p b \<noteq> []"
  by (simp add: process_repo_auth_certificate_bundle_def)

text \<open>
  Claim C8 (validation is mutation-free on rejection), as stated: whenever
  \<^verbatim>\<open>validate_config\<close> returns \<^verbatim>\<open>(False, message)\<close>, no certificate bundle has been
  written and no entry of the listing of protected repositories added or deleted. A
  configuration with a certificate and an overriding HTTPS publish directory that does
  not exist is rejected after the bundle has been written and the repository added to
  the listing.
\<close>

theorem validate_rejection_counterexample:
  "map_sum (\<lambda>e. e) fst (fst (validate_config mem_ops
       \<lparr>is_valid_checksum_type = (\<lambda>v. True), validate_cert = (\<lambda>s. True)\<rparr> (\<lambda>p i. [])
       \<lparr>repo_id = ''r1'', working_dir = ''/wd''\<rparr>
       [(''relative_url'', PStr ''r''), (''http'', PBool True), (''https'', PBool True),
        (''auth_cert'', PStr ''PEM''), (''https_publish_dir'', PStr ''/nowhere'')]
       (mem_fs []))) = Inr False
   \<and> snd (validate_config mem_ops
       \<lparr>is_valid_checksum_type = (\<lambda>v. True), validate_cert = (\<lambda>s. True)\<rparr> (\<lambda>p i. [])
       \<lparr>repo_id = ''r1'', working_dir = ''/wd''\<rparr>
       [(''relative_url'', PStr ''r''), (''http'', PBool True), (''https'', PBool True),
        (''auth_cert'', PStr ''PEM''), (''https_publish_dir'', PStr ''/nowhere'')]
       (mem_fs []))
     = [Write_consumer_cert_bundle ''r1'' \<lparr>cert = Some ''PEM'', ca = None\<rparr>,
        Add_protected_repo ''r'' ''r1'']"
  by code_simp

text \<open>
  Claim C8, amended: a rejection by the checks of the keys (the loop over the required
  keys and the loop over the keys of the configuration) is returned before any call on
  the certificate store or the listing of protected repositories; a rejection by the
  checks of the publish directories or by the check for a conflicting relative URL is
  returned after \<^verbatim>\<open>process_repo_auth_certificate_bundle\<close> has run, that is after the
  bundle was written and the repository added to the listing, or, with an empty bundle,
  after its entry was deleted from the listing.
\<close>

theorem validate_rejection_effects:
  assumes "validate_config ops vs conflicts r config w = (Inr (False, msg), calls)"
  shows "(calls = []
          \<and> (check_required_keys config REQUIRED_CONFIG_KEYS = msg \<and> msg \<noteq> None
             \<or> (\<exists>m. check_config_keys vs config (config_keys config) \<lparr>cert = None, ca = None\<rparr>
                      = Inr (Inl m) \<and> msg = Some m)))
       \<or> (\<exists>p b. check_required_keys config REQUIRED_CONFIG_KEYS = None
              \<and> check_config_keys vs config (config_keys config) \<lparr>cert = None, ca = None\<rparr>
                  = Inr (Inr b)
              \<and> stripped_relative_path r config = Inr p
              \<and> calls = process_repo_auth_certificate_bundle (repo_id r) p b
              \<and> calls \<noteq> []
              \<and> msg \<noteq> None
              \<and> (check_publish_dir ops config ''https_publish_dir'' w = Inr msg
                 \<or> check_publish_dir ops config ''http_publish_dir'' w = Inr msg
                 \<or> check_conflicts p (conflicts p (repo_id r)) = Inr msg))"
  using assms unfolding validate_config_def
  by (auto simp: Let_def process_bundle_nonempty split: option.splits sum.splits)

theorem validate_rejection_effects_witness:
  "\<exists>msg calls.
     validate_config mem_ops
       \<lparr>is_valid_checksum_type = (\<lambda>v. True), validate_cert = (\<lambda>s. True)\<rparr> (\<lambda>p i. [])
       \<lparr>repo_id = ''r1'', working_dir = ''/wd''\<rparr>
       [(''relative_url'', PStr ''r''), (''http'', PBool True), (''https'', PBool True),
        (''auth_cert'', PStr ''PEM''), (''https_publish_dir'', PStr ''/nowhere'')]
       (mem_fs []) = (Inr (False, msg), calls)
   \<and> calls \<noteq> []
   \<and> (\<exists>b. calls = process_repo_auth_certificate_bundle ''r1'' ''r'' b)
   \<and> check_publish_dir mem_ops
       [(''relative_url'', PStr ''r''), (''http'', PBool True), (''https'', PBool True),
        (''auth_cert'', PStr ''PEM''), (''https_publish_dir'', PStr ''/nowhere'')]
       ''https_publish_dir'' (mem_fs []) = Inr msg"
proof -
  have ev: "case validate_config mem_ops
       \<lparr>is_valid_checksum_type = (\<lambda>v. True), validate_cert = (\<lambda>s. True)\<rparr> (\<lambda>p i. [])
       \<lparr>repo_id = ''r1'', working_dir = ''/wd''\<rparr>
       [(''relative_url'', PStr ''r''), (''http'', PBool True), (''https'', PBool True),
        (''auth_cert'', PStr ''PEM''), (''https_publish_dir'', PStr ''/nowhere'')]
       (mem_fs []) of
      (Inr (False, msg), calls) \<Rightarrow> calls \<noteq> []
         \<and> check_publish_dir mem_ops
       [(''relative_url'', PStr ''r''), (''http'', PBool True), (''https'', PBool True),
        (''auth_cert'', PStr ''PEM''), (''https_publish_dir'', PStr ''/nowhere'')]
       ''https_publish_dir'' (mem_fs []) = Inr msg
    | _ \<Rightarrow> False"
    by code_simp
  then obtain msg calls where run: "validate_config mem_ops
       \<lparr>is_valid_checksum_type = (\<lambda>v. True), validate_cert = (\<lambda>s. True)\<rparr> (\<lambda>p i. [])
       \<lparr>repo_id = ''r1'', working_dir = ''/wd''\<rparr>
       [(''relative_url'', PStr ''r''), (''http'', PBool True), (''https'', PBool True),
        (''auth_cert'', PStr ''PEM''), (''https_publish_dir'', PStr ''/nowhere'')]
       (mem_fs []) = (Inr (False, msg), calls)"
    and ne: "calls \<noteq> []"
    and dir: "check_publish_dir mem_ops
       [(''relative_url'', PStr ''r''), (''http'', PBool True), (''https'', PBool True),
        (''auth_cert'', PStr ''PEM''), (''https_publish_dir'', PStr ''/nowhere'')]
       ''https_publish_dir'' (mem_fs []) = Inr msg"
    by (auto split: prod.splits sum.splits bool.splits)
  from validate_rejection_effects[OF run] ne obtain p b where
    "stripped_relative_path \<lparr>repo_id = ''r1'', working_dir = ''/wd''\<rparr>
       [(''relative_url'', PStr ''r''), (''http'', PBool True), (''https'', PBool True),
        (''auth_cert'', PStr ''PEM''), (''https_publish_dir'', PStr ''/nowhere'')] = Inr p"
    "calls = process_repo_auth_certificate_bundle
       (repo_id \<lparr>repo_id = ''r1'', working_dir = ''/wd''\<rparr>) p b"
    by blast
  then have "\<exists>b. calls = process_repo_auth_certificate_bundle ''r1'' ''r'' b"
    by (auto simp: stripped_relative_path_def get_repo_relative_path_def config_get_def
        startswith_slash_def)
  with run ne dir show ?thesis
    by blast
qed

section \<open>The relative path without a relative URL\<close>

text \<open>
  Claim C10 (implicit): when \<^verbatim>\<open>relative_url\<close> is absent or the empty string,
  \<^verbatim>\<open>get_repo_relative_path\<close> returns the id of the repository, and this is the path
  that \<^verbatim>\<open>validate_config\<close>, \<^verbatim>\<open>distributor_removed\<close> and \<^verbatim>\<open>publish_repo\<close> use
  (they strip one leading slash from it, which an id does not have); the empty string
  passes the check of the required key \<^verbatim>\<open>relative_url\<close>, and a configuration with the
  empty string is validated, so that a publish under the id can be reached.
\<close>

theorem empty_relative_url_uses_repo_id:
  assumes "config_get config ''relative_url'' = PNone \<or> config_get config ''relative_url'' = PStr []"
  shows "get_repo_relative_path r config = PStr (repo_id r)
       \<and> (\<not> startswith_slash (repo_id r) \<longrightarrow> stripped_relative_path r config = Inr (repo_id r))
       \<and> (config_get config ''relative_url'' = PStr [] \<longrightarrow>
            check_required_key config ''relative_url'' = None)
       \<and> (\<not> startswith_slash (repo_id r) \<longrightarrow>
            validate_config ops vs (\<lambda>p i. []) r
              [(''relative_url'', PStr []), (''http'', PBool a), (''https'', PBool b)] w
            = (Inr (True, None), [Delete_protected_repo (repo_id r)]))
       \<and> (\<not> startswith_slash (repo_id r) \<longrightarrow>
            snd (distributor_removed ops r config w)
            = [Delete_for_repo (repo_id r), Delete_protected_repo (repo_id r)])
       \<and> (\<not> startswith_slash (repo_id r) \<longrightarrow>
            (\<forall>mops til conduit pd res.
               publish_repo ops mops til conduit r config pd w = Inr res
               \<and> \<not> is_cancel (pr_report res)
               \<longrightarrow> map_option relative_path (report_summary (pr_report res)) = Some (repo_id r)
                 \<and> pr_old_relative_path res = Some (repo_id r)))"
proof -
  from assms have falsy: "\<not> truthy (config_get config ''relative_url'')"
    by auto
  then have path: "get_repo_relative_path r config = PStr (repo_id r)"
    by (simp add: get_repo_relative_path_def)
  then have stripped: "stripped_relative_path r config = Inr (repo_id r)"
    if "\<not> startswith_slash (repo_id r)"
    using that by (simp add: stripped_relative_path_def)
  have required: "check_required_key config ''relative_url'' = None"
    if "config_get config ''relative_url'' = PStr []"
    using that by (simp add: check_required_key_def check_relative_url_def re_match_disallowed_def)
  have validated: "validate_config ops vs (\<lambda>p i. []) r
              [(''relative_url'', PStr []), (''http'', PBool a), (''https'', PBool b)] w
            = (Inr (True, None), [Delete_protected_repo (repo_id r)])"
    if "\<not> startswith_slash (repo_id r)"
    using that
    by (simp add: validate_config_def REQUIRED_CONFIG_KEYS_def OPTIONAL_CONFIG_KEYS_def
      check_required_key_def check_relative_url_def check_boolean_def config_get_def
      re_match_disallowed_def config_keys_def check_config_key_def
      stripped_relative_path_def get_repo_relative_path_def
      process_repo_auth_certificate_bundle_def check_publish_dir_def check_conflicts_def)
  have removed: "snd (distributor_removed ops r config w)
            = [Delete_for_repo (repo_id r), Delete_protected_repo (repo_id r)]"
    if "\<not> startswith_slash (repo_id r)"
    using stripped[OF that]
    by (simp add: distributor_removed_def Let_def split: pyval.splits)
  have published: "map_option relative_path (report_summary (pr_report res)) = Some (repo_id r)
                 \<and> pr_old_relative_path res = Some (repo_id r)"
    if "\<not> startswith_slash (repo_id r)"
      and run: "publish_repo ops mops til conduit r config pd w = Inr res"
      and nc: "\<not> is_cancel (pr_report res)"
    for mops til conduit pd res
  proof -
    from publish_repo_phases[OF run nc] obtain pkg_units pkg_errors distro_units distro_errors
      groups cats mstat merrs prog calls pd1 w5 where
      finish: "publish_finish ops conduit r config pkg_units pkg_errors distro_units
        distro_errors groups cats mstat merrs prog calls pd1 w5 = Inr res"
      by blast
    from publish_finish_result[OF finish] obtain relpath where
      "stripped_relative_path r config = Inr relpath"
      "map_option relative_path (report_summary (pr_report res)) = Some relpath"
      "pr_old_relative_path res = Some relpath"
      by blast
    with stripped[OF that(1)] show ?thesis
      by simp
  qed
  from path stripped required validated removed published show ?thesis
    by blast
qed

theorem empty_relative_url_uses_repo_id_witness:
  "get_repo_relative_path \<lparr>repo_id = ''r1'', working_dir = ''/wd''\<rparr>
       [(''relative_url'', PStr []), (''http'', PBool True), (''https'', PBool False)] = PStr ''r1''
   \<and> stripped_relative_path \<lparr>repo_id = ''r1'', working_dir = ''/wd''\<rparr>
       [(''relative_url'', PStr []), (''http'', PBool True), (''https'', PBool False)] = Inr ''r1''
   \<and> check_required_key
       [(''relative_url'', PStr []), (''http'', PBool True), (''https'', PBool False)]
       ''relative_url'' = None
   \<and> validate_config mem_ops
       \<lparr>is_valid_checksum_type = (\<lambda>v. True), validate_cert = (\<lambda>s. True)\<rparr> (\<lambda>p i. [])
       \<lparr>repo_id = ''r1'', working_dir = ''/wd''\<rparr>
       [(''relative_url'', PStr []), (''http'', PBool True), (''https'', PBool False)] (mem_fs [])
     = (Inr (True, None), [Delete_protected_repo ''r1''])
   \<and> snd (distributor_removed mem_ops \<lparr>repo_id = ''r1'', working_dir = ''/wd''\<rparr>
       [(''relative_url'', PStr []), (''http'', PBool True), (''https'', PBool False)] (mem_fs []))
     = [Delete_for_repo ''r1'', Delete_protected_repo ''r1'']
   \<and> (\<exists>res. publish_repo mem_ops mem_metadata_ops []
       \<lparr>pc_distro_units = [], pc_rpm_units = [rpm ''A''], pc_srpm_units = [],
        pc_drpm_units = [], pc_errata_units = [], pc_group_category_units = [],
        pc_scratchpad = None, pc_old_relative_path = None\<rparr>
       \<lparr>repo_id = ''r1'', working_dir = ''/wd''\<rparr>
       [(''relative_url'', PStr []), (''http'', PBool True), (''https'', PBool False)] None
       (mem_fs []) = Inr res
     \<and> \<not> is_cancel (pr_report res)
     \<and> map_option relative_path (report_summary (pr_report res)) = Some ''r1''
     \<and> pr_old_relative_path res = Some ''r1'')"
proof -
  have rel: "config_get [(''relative_url'', PStr []), (''http'', PBool True), (''https'', PBool False)]
          ''relative_url'' = PNone
      \<or> config_get [(''relative_url'', PStr []), (''http'', PBool True), (''https'', PBool False)]
          ''relative_url'' = PStr []"
    by (simp add: config_get_def)
  have rel': "config_get [(''relative_url'', PStr []), (''http'', PBool True), (''https'', PBool False)]
          ''relative_url'' = PStr []"
    by (simp add: config_get_def)
  have id: "\<not> startswith_slash (repo_id \<lparr>repo_id = ''r1'', working_dir = ''/wd''\<rparr>)"
    by (simp add: startswith_slash_def)
  have "case publish_repo mem_ops mem_metadata_ops []
       \<lparr>pc_distro_units = [], pc_rpm_units = [rpm ''A''], pc_srpm_units = [],
        pc_drpm_units = [], pc_errata_units = [], pc_group_category_units = [],
        pc_scratchpad = None, pc_old_relative_path = None\<rparr>
       \<lparr>repo_id = ''r1'', working_dir = ''/wd''\<rparr>
       [(''relative_url'', PStr []), (''http'', PBool True), (''https'', PBool False)] None
       (mem_fs []) of
      Inl e \<Rightarrow> False
    | Inr res \<Rightarrow> \<not> is_cancel (pr_report res)"
    by code_simp
  then obtain res where run: "publish_repo mem_ops mem_metadata_ops []
       \<lparr>pc_distro_units = [], pc_rpm_units = [rpm ''A''], pc_srpm_units = [],
        pc_drpm_units = [], pc_errata_units = [], pc_group_category_units = [],
        pc_scratchpad = None, pc_old_relative_path = None\<rparr>
       \<lparr>repo_id = ''r1'', working_dir = ''/wd''\<rparr>
       [(''relative_url'', PStr []), (''http'', PBool True), (''https'', PBool False)] None
       (mem_fs []) = Inr res"
    and nc: "\<not> is_cancel (pr_report res)"
    by (auto split: sum.splits)
  from empty_relative_url_uses_repo_id[OF rel,
      of "\<lparr>repo_id = ''r1'', working_dir = ''/wd''\<rparr>" mem_ops
         "\<lparr>is_valid_checksum_type = (\<lambda>v. True), validate_cert = (\<lambda>s. True)\<rparr>"
         True False "mem_fs []"]
    rel' id run nc
  show ?thesis
    by auto
qed

end
